theory Spec2Isabelle
  imports Main
begin

section \<open>Data model\<close>

text \<open>
  The ticket workflow of the bot: the entities of \<^verbatim>\<open>types.d.ts\<close> (ITicket, ITicketCategory,
  IGuildConfig, ITicketMessage), the creation saga of \<^verbatim>\<open>TicketManager\<close> and the button handlers
  of the interaction event. Discord snowflakes and database ids are strings, ticket numbers
  and timestamps are natural numbers.
\<close>

datatype ITicketStatus = OPEN | CLOSED | ARCHIVED

record ITicketMessage =
  welcomeMessage :: "string option"
  includeSupportTeam :: bool

record ITicketCategory =
  cat_id :: string
  cat_name :: string
  cat_emoji :: "string option"
  supportRoleId :: "string option"
  cat_isEnabled :: bool
  cat_categoryId :: string
  ticketMessage :: "ITicketMessage option"

record IGuildConfig =
  cfg_guildId :: string
  globalTicketCount :: nat
  cfg_isEnabled :: bool

record ITicket =
  ticket_id :: string
  ticketNumber :: nat
  ticketGuildId :: string
  channelId :: string
  creatorId :: string
  claimedById :: "string option"
  closedById :: "string option"
  closedAt :: "nat option"
  status :: ITicketStatus
  closeReason :: "string option"
  category :: ITicketCategory

record ITicketCreationOptions =
  userId :: string
  guildId :: string
  categoryId :: string
  fromChatbot :: bool
  originalMessage :: "string option"
  additionalContext :: "string option"

record ITicketCreationResult =
  success :: bool
  ticket :: "ITicket option"
  channel :: "string option"
  resultTicketNumber :: "nat option"
  error :: "string option"

text \<open>The record store: the tables the repository reads and writes.\<close>

record Store =
  tickets :: "ITicket list"
  guildConfigs :: "IGuildConfig list"
  ticketCategories :: "ITicketCategory list"

subsection \<open>External calls, their faults and their effects\<close>

text \<open>
  Every awaited call into the record store or into Discord may reject. \<open>Call\<close> names the
  calls; the environment says which of them throw in a run, and supplies the values the
  outside world chooses (the clock, the id of a new channel, the id of a new row).
\<close>

datatype Call =
    GetGuildTickets | GetTicketByChannelId | UpdateTicketStatus | GetGuildConfig
  | GetTicketCategory | RepoCreateTicket | ClaimTicket | UnclaimTicket
  | ChannelsCreate | PermissionOverwritesCreate | SetName | ChannelSend | ChannelDelete
  | DeferReply | DeferUpdate | UsersFetch | UserSend | ShowModal

record Env =
  throws :: "Call \<Rightarrow> bool"
  now :: nat
  freshChannelId :: string
  freshTicketId :: string

datatype Embed =
    ErrorEmbed string | SuccessEmbed string | WarningEmbed string | InfoEmbed string
  | WelcomeEmbed nat string string
  | ReopenedEmbed string nat
  | ArchivedEmbed string nat
  | DeletePrompt
  | DeletedEmbed nat string
  | DeleteFailedEmbed
  | NotATicketChannel
  | UnclaimedNotice string nat
  | UnclaimedReply
  | AlreadyClaimedEmbed "string option"
  | PermissionDeniedEmbed
  | CloseDeniedEmbed
  | ClaimedNotice string nat
  | ClaimedReply
  | ClaimErrorEmbed

datatype Effect =
    StatusWritten string ITicketStatus "string option" "string option"
  | TicketInserted string string string string
  | ClaimWritten string string
  | UnclaimWritten string
  | ChannelCreated string string string
  | PermissionGranted string string
  | SendMessagesReset string string
  | ChannelRenamed string string
  | ButtonsEdited string string
  | ChannelMessage string Embed
  | ChannelDeleted string
  | DirectMessage string Embed
  | Deferred
  | Reply Embed
  | EditReply Embed
  | ModalShown

datatype Event = Done Effect | Threw Effect

text \<open>
  The world a handler runs in: the record store, the channels that resolve in the client's
  cache (id to name), the guilds in the cache, and the trace of the effects attempted so far
  (\<open>Done\<close> for a call that returned, \<open>Threw\<close> for one that rejected).
\<close>

record World =
  store :: Store
  channels :: "string \<rightharpoonup> string"
  guilds :: "string list"
  trace :: "Event list"

definition emit :: "Event \<Rightarrow> World \<Rightarrow> World" where
  "emit ev w = w\<lparr>trace := trace w @ [ev]\<rparr>"

text \<open>JavaScript truthiness of an optional string: absent and the empty string are falsy.\<close>

definition truthy :: "string option \<Rightarrow> bool" where
  "truthy v = (case v of None \<Rightarrow> False | Some s \<Rightarrow> s \<noteq> [])"

section \<open>The record store adapter\<close>

text \<open>
  The class TicketRepository is imported by the sources but is not among them. Its methods
  are modelled from the record-store contract of the spec, one by one.
\<close>

text \<open>
  Modelled from the spec: TicketRepository.getGuildTickets, the spec's "query all tickets for
  the workspace".
\<close>

definition getGuildTickets :: "Store \<Rightarrow> string \<Rightarrow> ITicket list" where
  "getGuildTickets s g = filter (\<lambda>t. ticketGuildId t = g) (tickets s)"

text \<open>
  Modelled from the spec: TicketRepository.getTicketByChannelId, the spec's
  \<^verbatim>\<open>getTicketByChannel\<close>: the ticket bound to the channel, if there is one.
\<close>

definition getTicketByChannelId :: "Store \<Rightarrow> string \<Rightarrow> ITicket option" where
  "getTicketByChannelId s c = find (\<lambda>t. channelId t = c) (tickets s)"

text \<open>
  Modelled from the spec: TicketRepository.getGuildConfig, the spec's
  \<^verbatim>\<open>getWorkspaceConfig(id)\<close>.
\<close>

definition getGuildConfig :: "Store \<Rightarrow> string \<Rightarrow> IGuildConfig option" where
  "getGuildConfig s g = find (\<lambda>c. cfg_guildId c = g) (guildConfigs s)"

text \<open>
  Modelled from the spec: TicketRepository.getTicketCategory, the spec's
  \<^verbatim>\<open>getCategory(id)\<close>.
\<close>

definition getTicketCategory :: "Store \<Rightarrow> string \<Rightarrow> ITicketCategory option" where
  "getTicketCategory s c = find (\<lambda>k. cat_id k = c) (ticketCategories s)"

text \<open>
  Modelled from the spec: the write of TicketRepository.updateTicketStatus on one ticket.
  The status is written with the closing principal and the reason the call is given (close,
  archive and delete pass both; reopen passes neither, which "clears close metadata"), and
  the closing time is stamped unless the ticket is opened.
\<close>

definition writeStatus ::
  "nat \<Rightarrow> ITicketStatus \<Rightarrow> string option \<Rightarrow> string option \<Rightarrow> ITicket \<Rightarrow> ITicket" where
  "writeStatus clock st actor reason t =
     t\<lparr>status := st, closedById := actor, closeReason := reason,
       closedAt := (if st = OPEN then None else Some clock)\<rparr>"

text \<open>
  Modelled from the spec: TicketRepository.updateTicketStatus, the spec's
  \<^verbatim>\<open>updateStatus(ticketId, status, actorId?, reason?)\<close>, keyed by the ticket's id.
\<close>

definition updateTicketStatus ::
  "nat \<Rightarrow> Store \<Rightarrow> string \<Rightarrow> ITicketStatus \<Rightarrow> string option \<Rightarrow> string option \<Rightarrow> Store" where
  "updateTicketStatus clock s tid st actor reason =
     s\<lparr>tickets := map (\<lambda>t. if ticket_id t = tid then writeStatus clock st actor reason t else t)
                       (tickets s)\<rparr>"

text \<open>
  Modelled from the spec: the spec's \<^verbatim>\<open>setClaimant(ticketId, actorId|null)\<close>, which the two
  repository methods below call.
\<close>

definition setClaimant :: "Store \<Rightarrow> string \<Rightarrow> string option \<Rightarrow> Store" where
  "setClaimant s tid who =
     s\<lparr>tickets := map (\<lambda>t. if ticket_id t = tid then t\<lparr>claimedById := who\<rparr> else t) (tickets s)\<rparr>"

text \<open>
  Modelled from the spec: TicketRepository.claimTicket, \<^verbatim>\<open>setClaimant\<close> with the actor.
\<close>

definition claimTicket :: "Store \<Rightarrow> string \<Rightarrow> string \<Rightarrow> Store" where
  "claimTicket s tid who = setClaimant s tid (Some who)"

text \<open>
  Modelled from the spec: TicketRepository.unclaimTicket, \<^verbatim>\<open>setClaimant\<close> with null.
\<close>

definition unclaimTicket :: "Store \<Rightarrow> string \<Rightarrow> Store" where
  "unclaimTicket s tid = setClaimant s tid None"

text \<open>
  Modelled from the spec: TicketRepository.createTicket, the spec's
  \<^verbatim>\<open>createTicket(workspace, creator, channel, category) -> Ticket\<close>: a new OPEN ticket bound to
  the channel, numbered one greater than the workspace's running counter, the counter
  advanced in the same write. Without the workspace's configuration or the category row
  there is nothing to number or to reference, and the insert fails (\<open>None\<close>).
\<close>

definition repoCreateTicket ::
  "Env \<Rightarrow> Store \<Rightarrow> string \<Rightarrow> string \<Rightarrow> string \<Rightarrow> string \<Rightarrow> (ITicket \<times> Store) option" where
  "repoCreateTicket e s g creator chan catId =
     (case getGuildConfig s g of
        None \<Rightarrow> None
      | Some cfg \<Rightarrow>
          (case getTicketCategory s catId of
             None \<Rightarrow> None
           | Some cat \<Rightarrow>
               let t = \<lparr>ticket_id = freshTicketId e, ticketNumber = globalTicketCount cfg + 1,
                        ticketGuildId = g, channelId = chan, creatorId = creator,
                        claimedById = None, closedById = None, closedAt = None,
                        status = OPEN, closeReason = None, category = cat\<rparr>
               in Some (t, s\<lparr>tickets := tickets s @ [t],
                             guildConfigs :=
                               map (\<lambda>c. if cfg_guildId c = g
                                         then c\<lparr>globalTicketCount := globalTicketCount c + 1\<rparr>
                                         else c) (guildConfigs s)\<rparr>)))"

section \<open>TicketManager: the creation saga\<close>

text \<open>
  The methods of the class \<^verbatim>\<open>TicketManager\<close> (the source file that defines it), in the order
  in which the source has them. An \<^verbatim>\<open>async\<close> method is a function from the environment and the
  world to its answer and the world afterwards; a \<^verbatim>\<open>try\<close>/\<^verbatim>\<open>catch\<close> is the case split on
  whether the awaited call throws.
\<close>

subsection \<open>checkExistingTicket\<close>

text \<open>
  The first OPEN ticket of the user in the guild's listing decides: with a channel that
  resolves it is returned with the channel; without one it is closed by "system" and the
  check answers null. Anything thrown inside is logged and answered with null.
\<close>

definition closeStaleTicket :: "Env \<Rightarrow> World \<Rightarrow> ITicket \<Rightarrow> World" where
  "closeStaleTicket e w existingTicket =
     (let written = StatusWritten (ticket_id existingTicket) CLOSED
                      (Some ''system'') (Some ''Ticket channel was deleted'')
      in if throws e UpdateTicketStatus then emit (Threw written) w
         else emit (Done written)
                (w\<lparr>store := updateTicketStatus (now e) (store w) (ticket_id existingTicket)
                               CLOSED (Some ''system'') (Some ''Ticket channel was deleted'')\<rparr>))"

definition checkExistingTicket ::
  "Env \<Rightarrow> World \<Rightarrow> string \<Rightarrow> string \<Rightarrow> (ITicket \<times> string) option \<times> World" where
  "checkExistingTicket e w uid g =
     (if throws e GetGuildTickets then (None, w)
      else
        (case filter (\<lambda>t. creatorId t = uid \<and> status t = OPEN) (getGuildTickets (store w) g) of
           [] \<Rightarrow> (None, w)
         | existingTicket # _ \<Rightarrow>
             (case channels w (channelId existingTicket) of
                Some _ \<Rightarrow> (Some (existingTicket, channelId existingTicket), w)
              | None \<Rightarrow> (None, closeStaleTicket e w existingTicket))))"

subsection \<open>validateCreationPrerequisites\<close>

definition validateCreationPrerequisites ::
  "Env \<Rightarrow> Store \<Rightarrow> string \<Rightarrow> string \<Rightarrow> string + (IGuildConfig \<times> ITicketCategory)" where
  "validateCreationPrerequisites e s g catId =
     (if throws e GetGuildConfig
      then Inl ''An error occurred while validating ticket creation requirements.''
      else
        (case getGuildConfig s g of
           None \<Rightarrow> Inl ''The ticket system is currently disabled for this server.''
         | Some guildConfig \<Rightarrow>
             if \<not> cfg_isEnabled guildConfig
             then Inl ''The ticket system is currently disabled for this server.''
             else if throws e GetTicketCategory
             then Inl ''An error occurred while validating ticket creation requirements.''
             else
               (case getTicketCategory s catId of
                  None \<Rightarrow> Inl ''The selected ticket category no longer exists.''
                | Some cat \<Rightarrow>
                    if \<not> cat_isEnabled cat
                    then Inl ''The selected ticket category is currently disabled.''
                    else Inr (guildConfig, cat))))"

subsection \<open>createDiscordChannel\<close>

text \<open>
  The channel is created as \<^verbatim>\<open>ticket-new\<close> under the category's parent; the grant to the
  support role is tried afterwards and only logged when it fails. A failed creation is
  answered with null.
\<close>

definition createDiscordChannel ::
  "Env \<Rightarrow> World \<Rightarrow> ITicketCategory \<Rightarrow> string \<Rightarrow> string option \<times> World" where
  "createDiscordChannel e w cat uid =
     (if throws e ChannelsCreate
      then (None, emit (Threw (ChannelCreated (freshChannelId e) (cat_categoryId cat) uid)) w)
      else
        let c = freshChannelId e;
            w1 = emit (Done (ChannelCreated c (cat_categoryId cat) uid))
                   (w\<lparr>channels := (channels w)(c \<mapsto> ''ticket-new'')\<rparr>)
        in if truthy (supportRoleId cat)
           then (if throws e PermissionOverwritesCreate
                 then (Some c, emit (Threw (PermissionGranted c (the (supportRoleId cat)))) w1)
                 else (Some c, emit (Done (PermissionGranted c (the (supportRoleId cat)))) w1))
           else (Some c, w1))"

subsection \<open>The welcome message\<close>

definition nl :: string where
  "nl = [CHR 0x0A]"

definition generateWelcomeMessage :: "ITicketCategory \<Rightarrow> ITicketCreationOptions \<Rightarrow> string" where
  "generateWelcomeMessage cat options =
     (let configured = (case ticketMessage cat of None \<Rightarrow> None | Some m \<Rightarrow> welcomeMessage m);
          m0 = (if truthy configured then the configured
                else ''Welcome to your ticket in the **'' @ cat_name cat @ ''** category!'' @ nl @ nl
                     @ ''Please describe your issue and wait for a staff member to assist you.'');
          m1 = (if fromChatbot options \<and> truthy (originalMessage options)
                then m0 @ nl @ nl @ ''**Original question:** *'' @ the (originalMessage options) @ ''*''
                else m0)
      in if truthy (additionalContext options)
         then m1 @ nl @ nl @ the (additionalContext options)
         else m1)"

definition sendWelcomeMessage ::
  "Env \<Rightarrow> World \<Rightarrow> string \<Rightarrow> ITicket \<Rightarrow> ITicketCategory \<Rightarrow> ITicketCreationOptions \<Rightarrow> bool \<times> World" where
  "sendWelcomeMessage e w c t cat options =
     (let msg = ChannelMessage c
                  (WelcomeEmbed (ticketNumber t) (generateWelcomeMessage cat options) (userId options))
      in if throws e ChannelSend
         then (False, emit (Threw msg) w)
         else (True, emit (Done msg) w))"

subsection \<open>createTicket\<close>

text \<open>
  \<^verbatim>\<open>ticketNumber.toString().padStart(4, '0')\<close>: the decimal digits of the number, filled up
  with zeros on the left to four characters (longer numbers are left as they are).
\<close>

definition digitChar :: "nat \<Rightarrow> char" where
  "digitChar d = ''0123456789'' ! d"

fun toString :: "nat \<Rightarrow> string" where
  "toString n = (if n < 10 then [digitChar n] else toString (n div 10) @ [digitChar (n mod 10)])"

declare toString.simps [simp del]

definition padStart :: "nat \<Rightarrow> char \<Rightarrow> string \<Rightarrow> string" where
  "padStart n c s = replicate (n - length s) c @ s"

definition channelMention :: "string \<Rightarrow> string" where
  "channelMention c = ''<#'' @ c @ ''>''"

definition failure :: "string \<Rightarrow> ITicketCreationResult" where
  "failure msg =
     \<lparr>success = False, ticket = None, channel = None, resultTicketNumber = None,
      error = Some msg\<rparr>"

text \<open>
  \<^verbatim>\<open>channel.delete()\<close>: rejects when Discord does, and when the channel is already gone.
\<close>

definition channelDelete :: "Env \<Rightarrow> World \<Rightarrow> string \<Rightarrow> bool \<times> World" where
  "channelDelete e w c =
     (if throws e ChannelDelete \<or> channels w c = None
      then (False, emit (Threw (ChannelDeleted c)) w)
      else (True, emit (Done (ChannelDeleted c)) (w\<lparr>channels := (channels w)(c := None)\<rparr>)))"

text \<open>
  The body of the \<^verbatim>\<open>try\<close> block, cut where the source numbers its steps. Each part answers
  with what the block did (\<open>Inl ()\<close>: it threw; \<open>Inr r\<close>: it returned \<open>r\<close>), the value of the
  variable \<^verbatim>\<open>createdChannel\<close> at that moment, and the world.
\<close>

definition createTicket_step5 ::
  "Env \<Rightarrow> World \<Rightarrow> ITicketCreationOptions \<Rightarrow> ITicketCategory \<Rightarrow> string
     \<Rightarrow> (unit + ITicketCreationResult) \<times> string option \<times> World" where
  "createTicket_step5 e w options cat created =
     (let row = TicketInserted (guildId options) (userId options) created (categoryId options)
      in if throws e RepoCreateTicket then (Inl (), Some created, emit (Threw row) w)
         else
           (case repoCreateTicket e (store w) (guildId options) (userId options) created
                   (categoryId options) of
              None \<Rightarrow> (Inl (), Some created, emit (Threw row) w)
            | Some (t, s') \<Rightarrow>
                let w1 = emit (Done row) (w\<lparr>store := s'\<rparr>);
                    channelName = ''ticket-'' @ padStart 4 (CHR ''0'') (toString (ticketNumber t))
                in if throws e SetName
                   then (Inl (), Some created, emit (Threw (ChannelRenamed created channelName)) w1)
                   else
                     (case sendWelcomeMessage e
                             (emit (Done (ChannelRenamed created channelName))
                                (w1\<lparr>channels := (channels w1)(created \<mapsto> channelName)\<rparr>))
                             created t cat options of
                        (welcomeSuccess, w3) \<Rightarrow>
                          (Inr \<lparr>success = True, ticket = Some t, channel = Some created,
                                resultTicketNumber = Some (ticketNumber t), error = None\<rparr>,
                           Some created, w3))))"

definition createTicket_step2 ::
  "Env \<Rightarrow> World \<Rightarrow> ITicketCreationOptions
     \<Rightarrow> (unit + ITicketCreationResult) \<times> string option \<times> World" where
  "createTicket_step2 e w options =
     (case validateCreationPrerequisites e (store w) (guildId options) (categoryId options) of
        Inl msg \<Rightarrow> (Inr (failure (if msg \<noteq> [] then msg else ''Validation failed'')), None, w)
      | Inr (guildConfig, cat) \<Rightarrow>
          if guildId options \<notin> set (guilds w)
          then (Inr (failure ''Server not found''), None, w)
          else
            (case createDiscordChannel e w cat (userId options) of
               (None, w1) \<Rightarrow> (Inr (failure ''Failed to create ticket channel''), None, w1)
             | (Some created, w1) \<Rightarrow> createTicket_step5 e w1 options cat created))"

definition createTicket_try ::
  "Env \<Rightarrow> World \<Rightarrow> ITicketCreationOptions
     \<Rightarrow> (unit + ITicketCreationResult) \<times> string option \<times> World" where
  "createTicket_try e w options =
     (case checkExistingTicket e w (userId options) (guildId options) of
        (Some (existingTicket, c), w1) \<Rightarrow>
          (Inr (failure (''You already have an open ticket: '' @ channelMention c)), None, w1)
      | (None, w1) \<Rightarrow> createTicket_step2 e w1 options)"

text \<open>
  The whole method: what the \<^verbatim>\<open>try\<close> block returns is returned; when it throws, the
  \<^verbatim>\<open>catch\<close> block deletes the channel held in \<^verbatim>\<open>createdChannel\<close>, if any, logs a failure of
  that deletion, and answers with the generic failure.
\<close>

definition createTicket ::
  "Env \<Rightarrow> World \<Rightarrow> ITicketCreationOptions \<Rightarrow> ITicketCreationResult \<times> World" where
  "createTicket e w options =
     (case createTicket_try e w options of
        (Inr r, createdChannel, w1) \<Rightarrow> (r, w1)
      | (Inl u, createdChannel, w1) \<Rightarrow>
          (failure ''An unexpected error occurred while creating the ticket'',
           (case createdChannel of
              None \<Rightarrow> w1
            | Some c \<Rightarrow> snd (channelDelete e w1 c))))"

section \<open>The button handlers of the interaction event\<close>

text \<open>
  The handlers that the \<^verbatim>\<open>InteractionCreate\<close> event dispatches to by custom id:
  \<^verbatim>\<open>ticket_close\<close>, \<^verbatim>\<open>ticket_reopen\<close>, \<^verbatim>\<open>ticket_archive\<close>, \<^verbatim>\<open>ticket_delete\<close> and \<^verbatim>\<open>ticket_claim\<close>.
  A handler returns nothing: what it did is read off the world it leaves, the store and the
  trace of replies, messages and writes.
\<close>

text \<open>
  What a handler reads of the interaction it is given: the user, the channel and the guild it
  came from, its custom id and kind, whether the member holds Manage Channels, the member's
  roles, and whether the interaction carries the message the button sits on.
\<close>

record ButtonInteraction =
  i_userId :: string
  i_userTag :: string
  i_channelId :: string
  i_guildId :: string
  customId :: string
  isButton :: bool
  manageChannels :: bool
  memberRoles :: "string list"
  hasMessage :: bool

text \<open>
  The \<^verbatim>\<open>catch\<close> block shared by the handlers: the error is shown by editing the deferred
  reply, or by a fresh reply when the interaction was not deferred.
\<close>

definition catchReply :: "bool \<Rightarrow> Embed \<Rightarrow> World \<Rightarrow> World" where
  "catchReply deferred msg w =
     (if deferred then emit (Done (EditReply msg)) w else emit (Done (Reply msg)) w)"

subsection \<open>handleCloseButton\<close>

definition handleCloseButton :: "Env \<Rightarrow> World \<Rightarrow> ButtonInteraction \<Rightarrow> World" where
  "handleCloseButton e w interaction =
     (if throws e GetTicketByChannelId
      then catchReply False (ErrorEmbed ''An error occurred while processing your request.'') w
      else
        (case getTicketByChannelId (store w) (i_channelId interaction) of
           None \<Rightarrow> emit (Done (Reply (ErrorEmbed ''This is not a valid ticket channel.''))) w
         | Some t \<Rightarrow>
             if status t \<noteq> OPEN
             then emit (Done (Reply (ErrorEmbed ''This ticket is already closed.''))) w
             else if throws e ShowModal
             then catchReply False (ErrorEmbed ''An error occurred while processing your request.'')
                    (emit (Threw ModalShown) w)
             else emit (Done ModalShown) w))"

subsection \<open>handleReopenButton\<close>

text \<open>
  After the status write and the notice in the channel, the permission overwrites are set
  again inside a \<^verbatim>\<open>try\<close> of their own: a failure there is answered with a warning.
\<close>

definition reopenPermissions :: "Env \<Rightarrow> World \<Rightarrow> ButtonInteraction \<Rightarrow> ITicket \<Rightarrow> World" where
  "reopenPermissions e w interaction t =
     (let c = i_channelId interaction in
      if throws e PermissionOverwritesCreate
      then emit (Done (EditReply (WarningEmbed
                  ''Ticket marked as reopened, but could not update channel permissions.'')))
             (emit (Threw (SendMessagesReset c ''@everyone'')) w)
      else
        let w1 = emit (Done (PermissionGranted c (creatorId t)))
                   (emit (Done (SendMessagesReset c ''@everyone'')) w);
            w2 = (if truthy (supportRoleId (category t))
                  then emit (Done (PermissionGranted c (the (supportRoleId (category t))))) w1
                  else w1)
        in emit (Done (EditReply (SuccessEmbed ''Ticket reopened successfully.''))) w2)"

definition handleReopenButton :: "Env \<Rightarrow> World \<Rightarrow> ButtonInteraction \<Rightarrow> World" where
  "handleReopenButton e w interaction =
     (let failed = ErrorEmbed ''An error occurred while reopening the ticket.'' in
      if throws e DeferReply then catchReply False failed w
      else
        let w0 = emit (Done Deferred) w in
        if throws e GetTicketByChannelId then catchReply True failed w0
        else
          (case getTicketByChannelId (store w0) (i_channelId interaction) of
             None \<Rightarrow> emit (Done (EditReply (ErrorEmbed ''This is not a valid ticket channel.''))) w0
           | Some t \<Rightarrow>
               if status t = OPEN
               then emit (Done (EditReply (ErrorEmbed ''This ticket is already open.''))) w0
               else if throws e UpdateTicketStatus
               then catchReply True failed
                      (emit (Threw (StatusWritten (ticket_id t) OPEN None None)) w0)
               else
                 let w1 = emit (Done (StatusWritten (ticket_id t) OPEN None None))
                            (w0\<lparr>store := updateTicketStatus (now e) (store w0) (ticket_id t)
                                            OPEN None None\<rparr>);
                     notice = ChannelMessage (i_channelId interaction)
                                (ReopenedEmbed (i_userId interaction) (ticketNumber t))
                 in if throws e ChannelSend
                    then catchReply True failed (emit (Threw notice) w1)
                    else reopenPermissions e (emit (Done notice) w1) interaction t))"

subsection \<open>handleArchiveButton\<close>

definition handleArchiveButton :: "Env \<Rightarrow> World \<Rightarrow> ButtonInteraction \<Rightarrow> World" where
  "handleArchiveButton e w interaction =
     (let failed = ErrorEmbed ''An error occurred while archiving the ticket.'' in
      if throws e DeferReply then catchReply False failed w
      else
        let w0 = emit (Done Deferred) w in
        if throws e GetTicketByChannelId then catchReply True failed w0
        else
          (case getTicketByChannelId (store w0) (i_channelId interaction) of
             None \<Rightarrow> emit (Done (EditReply (ErrorEmbed ''This is not a valid ticket channel.''))) w0
           | Some t \<Rightarrow>
               if status t = ARCHIVED
               then emit (Done (EditReply (ErrorEmbed ''This ticket is already archived.''))) w0
               else if throws e UpdateTicketStatus
               then catchReply True failed
                      (emit (Threw (StatusWritten (ticket_id t) ARCHIVED
                                     (Some (i_userId interaction)) (Some ''Ticket archived''))) w0)
               else
                 let w1 = emit (Done (StatusWritten (ticket_id t) ARCHIVED
                                       (Some (i_userId interaction)) (Some ''Ticket archived'')))
                            (w0\<lparr>store := updateTicketStatus (now e) (store w0) (ticket_id t)
                                            ARCHIVED (Some (i_userId interaction))
                                            (Some ''Ticket archived'')\<rparr>);
                     notice = ChannelMessage (i_channelId interaction)
                                (ArchivedEmbed (i_userId interaction) (ticketNumber t))
                 in if throws e ChannelSend
                    then catchReply True failed (emit (Threw notice) w1)
                    else emit (Done (EditReply (SuccessEmbed ''Ticket archived successfully.'')))
                           (emit (Done notice) w1)))"

subsection \<open>handleClaimButton\<close>

text \<open>
  The branch of a ticket claimed by the interacting user: the claim is dropped, the channel
  is told, the button is set back to "Claim Ticket".
\<close>

definition claimControls :: "World \<Rightarrow> ButtonInteraction \<Rightarrow> string \<Rightarrow> World" where
  "claimControls w interaction label =
     (if hasMessage interaction
      then emit (Done (ButtonsEdited (i_channelId interaction) label)) w
      else w)"

definition unclaimBranch :: "Env \<Rightarrow> World \<Rightarrow> ButtonInteraction \<Rightarrow> ITicket \<Rightarrow> World" where
  "unclaimBranch e w interaction t =
     (if throws e DeferReply then catchReply False ClaimErrorEmbed w
      else
        let w0 = emit (Done Deferred) w in
        if throws e UnclaimTicket
        then catchReply True ClaimErrorEmbed (emit (Threw (UnclaimWritten (ticket_id t))) w0)
        else
          let w1 = emit (Done (UnclaimWritten (ticket_id t)))
                     (w0\<lparr>store := unclaimTicket (store w0) (ticket_id t)\<rparr>);
              notice = ChannelMessage (i_channelId interaction)
                         (UnclaimedNotice (i_userId interaction) (ticketNumber t))
          in if throws e ChannelSend
             then catchReply True ClaimErrorEmbed (emit (Threw notice) w1)
             else emit (Done (EditReply UnclaimedReply))
                    (claimControls (emit (Done notice) w1) interaction ''Claim Ticket''))"

text \<open>
  The branch of a ticket claimed by somebody else: the claimant is looked up (a failed
  lookup gives null, shown as "someone else") and the reply says the ticket is taken.
\<close>

definition alreadyClaimedBranch :: "Env \<Rightarrow> World \<Rightarrow> string \<Rightarrow> World" where
  "alreadyClaimedBranch e w claimant =
     (let claimer = (if throws e UsersFetch then None else Some claimant)
      in emit (Done (Reply (AlreadyClaimedEmbed claimer))) w)"

text \<open>The branch of an unclaimed ticket: the permission guard, then the claim.\<close>

definition hasPermission :: "ButtonInteraction \<Rightarrow> ITicket \<Rightarrow> bool" where
  "hasPermission interaction t =
     (manageChannels interaction
      \<or> (truthy (supportRoleId (category t))
          \<and> the (supportRoleId (category t)) \<in> set (memberRoles interaction)))"

definition claimBranch :: "Env \<Rightarrow> World \<Rightarrow> ButtonInteraction \<Rightarrow> ITicket \<Rightarrow> World" where
  "claimBranch e w interaction t =
     (if \<not> hasPermission interaction t then emit (Done (Reply PermissionDeniedEmbed)) w
      else if throws e DeferReply then catchReply False ClaimErrorEmbed w
      else
        let w0 = emit (Done Deferred) w in
        if throws e ClaimTicket
        then catchReply True ClaimErrorEmbed
               (emit (Threw (ClaimWritten (ticket_id t) (i_userId interaction))) w0)
        else
          let w1 = emit (Done (ClaimWritten (ticket_id t) (i_userId interaction)))
                     (w0\<lparr>store := claimTicket (store w0) (ticket_id t) (i_userId interaction)\<rparr>);
              notice = ChannelMessage (i_channelId interaction)
                         (ClaimedNotice (i_userId interaction) (ticketNumber t))
          in if throws e ChannelSend
             then catchReply True ClaimErrorEmbed (emit (Threw notice) w1)
             else emit (Done (EditReply ClaimedReply))
                    (claimControls (emit (Done notice) w1) interaction ''Unclaim Ticket''))"

definition handleClaimButton :: "Env \<Rightarrow> World \<Rightarrow> ButtonInteraction \<Rightarrow> World" where
  "handleClaimButton e w interaction =
     (if throws e GetTicketByChannelId then catchReply False ClaimErrorEmbed w
      else
        (case getTicketByChannelId (store w) (i_channelId interaction) of
           None \<Rightarrow> emit (Done (Reply NotATicketChannel)) w
         | Some t \<Rightarrow>
             if truthy (claimedById t)
             then (if claimedById t = Some (i_userId interaction)
                   then unclaimBranch e w interaction t
                   else alreadyClaimedBranch e w (the (claimedById t)))
             else claimBranch e w interaction t))"

subsection \<open>Closing a ticket\<close>

text \<open>
  Modelled from the spec: the close permission of the handler of the submitted close modal,
  which is not among the sources. It is the spec's "requires the actor to have close
  permission (creator, claimant, or staff)"; staff is who may claim, an administrative
  capability or the category's support role.
\<close>

definition mayClose :: "ButtonInteraction \<Rightarrow> ITicket \<Rightarrow> bool" where
  "mayClose interaction t =
     (i_userId interaction = creatorId t \<or> claimedById t = Some (i_userId interaction)
      \<or> hasPermission interaction t)"

text \<open>
  Modelled from the spec: the handler of the submitted close modal is not among the sources.
  It is the spec's \<^verbatim>\<open>close(ticket, actor, reason)\<close>: legal only from OPEN (otherwise it fails
  with an invalid transition), it requires the actor to have close permission (otherwise it
  fails with permission denied), and it writes status=CLOSED, closedBy=actor, closeReason
  and closedAt=now.
\<close>

definition closeTicket :: "Env \<Rightarrow> World \<Rightarrow> ButtonInteraction \<Rightarrow> string option \<Rightarrow> World" where
  "closeTicket e w interaction reason =
     (case getTicketByChannelId (store w) (i_channelId interaction) of
        None \<Rightarrow> emit (Done (Reply (ErrorEmbed ''This is not a valid ticket channel.''))) w
      | Some t \<Rightarrow>
          if status t \<noteq> OPEN
          then emit (Done (Reply (ErrorEmbed ''This ticket is already closed.''))) w
          else if \<not> mayClose interaction t
          then emit (Done (Reply CloseDeniedEmbed)) w
          else emit (Done (StatusWritten (ticket_id t) CLOSED (Some (i_userId interaction)) reason))
                 (w\<lparr>store := updateTicketStatus (now e) (store w) (ticket_id t) CLOSED
                               (Some (i_userId interaction)) reason\<rparr>))"

subsection \<open>handleDeleteButton and its confirmation collector\<close>

text \<open>
  The handler shows the prompt and opens a component collector on it. The collector is a
  small state machine of the client library: it holds what it has collected, whether it has
  ended, and here also the \<^verbatim>\<open>collect\<close> listeners that have started and are suspended at their
  first \<^verbatim>\<open>await\<close>, and the number of channel deletions scheduled with \<^verbatim>\<open>setTimeout\<close>. The
  listeners close over the opening interaction and over the ticket read when the prompt was
  shown.
\<close>

record Collector =
  opener :: ButtonInteraction
  heldTicket :: ITicket
  timeLimit :: nat
  ended :: bool
  collected :: "ButtonInteraction list"
  suspended :: "ButtonInteraction list"
  scheduled :: nat

definition collectorFilter :: "ButtonInteraction \<Rightarrow> ButtonInteraction \<Rightarrow> bool" where
  "collectorFilter interaction i =
     (isButton i \<and> customId i \<in> set [''confirm_delete'', ''cancel_delete'']
      \<and> i_userId i = i_userId interaction)"

definition handleDeleteButton ::
  "Env \<Rightarrow> World \<Rightarrow> ButtonInteraction \<Rightarrow> World \<times> Collector option" where
  "handleDeleteButton e w interaction =
     (let failed = ErrorEmbed ''An error occurred while processing your delete request.'' in
      if throws e DeferReply then (catchReply False failed w, None)
      else
        let w0 = emit (Done Deferred) w in
        if throws e GetTicketByChannelId then (catchReply True failed w0, None)
        else
          (case getTicketByChannelId (store w0) (i_channelId interaction) of
             None \<Rightarrow>
               (emit (Done (EditReply (ErrorEmbed ''This is not a valid ticket channel.''))) w0,
                None)
           | Some t \<Rightarrow>
               if \<not> manageChannels interaction
               then (emit (Done (EditReply (ErrorEmbed
                        ''You need Manage Channels permission to delete tickets.''))) w0, None)
               else (emit (Done (EditReply DeletePrompt)) w0,
                     Some \<lparr>opener = interaction, heldTicket = t, timeLimit = 30000,
                           ended = False, collected = [], suspended = [], scheduled = 0\<rparr>)))"

text \<open>
  The \<^verbatim>\<open>collect\<close> listener, from its first \<^verbatim>\<open>await\<close> to its end. It answers with the world,
  whether it called \<^verbatim>\<open>collector.stop()\<close>, and whether it scheduled the channel deletion.
\<close>

definition notifyCreator :: "Env \<Rightarrow> World \<Rightarrow> Collector \<Rightarrow> World" where
  "notifyCreator e w col =
     (let dm = DirectMessage (creatorId (heldTicket col))
                 (DeletedEmbed (ticketNumber (heldTicket col)) (i_userTag (opener col)))
      in if throws e UsersFetch then w
         else if throws e UserSend then emit (Threw dm) w
         else emit (Done dm) w)"

definition onCollect ::
  "Env \<Rightarrow> Collector \<Rightarrow> World \<Rightarrow> ButtonInteraction \<Rightarrow> World \<times> bool \<times> bool" where
  "onCollect e col w i =
     (let failed = ErrorEmbed ''An error occurred while processing your request.'' in
      if throws e DeferUpdate then (emit (Done (EditReply failed)) w, False, False)
      else if customId i = ''cancel_delete''
      then (emit (Done (EditReply (InfoEmbed ''Ticket deletion canceled.''))) w, True, False)
      else if customId i = ''confirm_delete''
      then
        (let written = StatusWritten (ticket_id (heldTicket col)) CLOSED
                         (Some (i_userId (opener col))) (Some ''Ticket deleted by staff'')
         in if throws e UpdateTicketStatus
            then (emit (Done (EditReply failed)) (emit (Threw written) w), False, False)
            else
              let w1 = emit (Done written)
                         (w\<lparr>store := updateTicketStatus (now e) (store w)
                                        (ticket_id (heldTicket col)) CLOSED
                                        (Some (i_userId (opener col)))
                                        (Some ''Ticket deleted by staff'')\<rparr>);
                  w2 = notifyCreator e w1 col
              in (emit (Done (EditReply (SuccessEmbed ''Deleting ticket...''))) w2, True, True))
      else (w, False, False))"

text \<open>
  The callback of \<^verbatim>\<open>setTimeout\<close>: the channel of the opening interaction is deleted; when
  that fails, the acting user is told by direct message that the ticket is closed in the
  database and the channel is still there.
\<close>

definition onTimer :: "Env \<Rightarrow> Collector \<Rightarrow> World \<Rightarrow> World" where
  "onTimer e col w =
     (case channelDelete e w (i_channelId (opener col)) of
        (True, w1) \<Rightarrow> w1
      | (False, w1) \<Rightarrow>
          let dm = DirectMessage (i_userId (opener col)) DeleteFailedEmbed
          in if throws e UserSend then emit (Threw dm) w1 else emit (Done dm) w1)"

text \<open>The \<^verbatim>\<open>end\<close> listener.\<close>

definition onEnd :: "string \<Rightarrow> Collector \<Rightarrow> World \<Rightarrow> World" where
  "onEnd reason col w =
     (if reason = ''time'' \<and> collected col = []
      then emit (Done (EditReply (InfoEmbed ''Ticket deletion timed out.''))) w
      else w)"

text \<open>
  What can happen to an open collector, one event of the event loop at a time:
  a component interaction arrives (\<open>Press\<close>: ignored once the collector has ended or when the
  filter rejects it, otherwise collected, and its listener starts and suspends at
  \<^verbatim>\<open>deferUpdate\<close>); the oldest suspended listener runs on to its end (\<open>Resume\<close>); the
  collector's time runs out (\<open>Elapsed\<close>: \<^verbatim>\<open>stop("time")\<close>, which does nothing on an ended
  collector); a scheduled deletion fires (\<open>Timer\<close>). \<^verbatim>\<open>stop()\<close> from a listener ends the
  collector with the reason "user". Two things are coarser here than in the library: a
  \<open>Press\<close> is a component interaction on the prompt message (the collector is bound to that
  message and drops the interactions of other messages before its filter sees them), and a
  \<open>Resume\<close> runs a listener through all its awaited calls in one step, so the runs described
  are those in which nothing else is dispatched between the awaits of one listener.
\<close>

datatype Happening = Press ButtonInteraction | Resume | Elapsed | Timer

definition stopCollector :: "string \<Rightarrow> World \<times> Collector \<Rightarrow> World \<times> Collector" where
  "stopCollector reason wc =
     (case wc of (w, col) \<Rightarrow>
        if ended col then (w, col) else (onEnd reason col w, col\<lparr>ended := True\<rparr>))"

fun collectorStep :: "Env \<Rightarrow> World \<times> Collector \<Rightarrow> Happening \<Rightarrow> World \<times> Collector" where
  "collectorStep e (w, col) (Press i) =
     (if ended col \<or> \<not> collectorFilter (opener col) i then (w, col)
      else (w, col\<lparr>collected := collected col @ [i], suspended := suspended col @ [i]\<rparr>))"
| "collectorStep e (w, col) Resume =
     (case suspended col of
        [] \<Rightarrow> (w, col)
      | i # rest \<Rightarrow>
          (case onCollect e col w i of
             (w1, stop, later) \<Rightarrow>
               let col1 = col\<lparr>suspended := rest,
                               scheduled := scheduled col + (if later then 1 else 0)\<rparr>
               in if stop then stopCollector ''user'' (w1, col1) else (w1, col1)))"
| "collectorStep e (w, col) Elapsed = stopCollector ''time'' (w, col)"
| "collectorStep e (w, col) Timer =
     (if scheduled col = 0 then (w, col)
      else (onTimer e col w, col\<lparr>scheduled := scheduled col - 1\<rparr>))"

definition collectorRun ::
  "Env \<Rightarrow> World \<times> Collector \<Rightarrow> Happening list \<Rightarrow> World \<times> Collector" where
  "collectorRun e wc hs = foldl (collectorStep e) wc hs"

section \<open>A small guild to run the handlers on\<close>

text \<open>
  Guild \<^verbatim>\<open>g1\<close> with the ticket system enabled, one enabled category \<^verbatim>\<open>c1\<close> whose support role
  is \<^verbatim>\<open>r1\<close>, and seven tickets numbered so far. Tickets, resolvable channels and faults are
  given per example.
\<close>

definition exCategory :: ITicketCategory where
  "exCategory =
     \<lparr>cat_id = ''c1'', cat_name = ''Help'', cat_emoji = None, supportRoleId = Some ''r1'',
      cat_isEnabled = True, cat_categoryId = ''p1'', ticketMessage = None\<rparr>"

definition exConfig :: IGuildConfig where
  "exConfig = \<lparr>cfg_guildId = ''g1'', globalTicketCount = 7, cfg_isEnabled = True\<rparr>"

definition exTicket ::
  "string \<Rightarrow> nat \<Rightarrow> string \<Rightarrow> string \<Rightarrow> ITicketStatus \<Rightarrow> string option \<Rightarrow> ITicket" where
  "exTicket tid n c u st claimant =
     \<lparr>ticket_id = tid, ticketNumber = n, ticketGuildId = ''g1'', channelId = c,
      creatorId = u, claimedById = claimant, closedById = None, closedAt = None, status = st,
      closeReason = None, category = exCategory\<rparr>"

definition exStore :: "ITicket list \<Rightarrow> Store" where
  "exStore ts = \<lparr>tickets = ts, guildConfigs = [exConfig], ticketCategories = [exCategory]\<rparr>"

definition exWorld :: "ITicket list \<Rightarrow> string list \<Rightarrow> World" where
  "exWorld ts cs =
     \<lparr>store = exStore ts, channels = map_of (map (\<lambda>c. (c, ''ticket'')) cs),
      guilds = [''g1''], trace = []\<rparr>"

definition exEnv :: "Call list \<Rightarrow> Env" where
  "exEnv faults =
     \<lparr>throws = (\<lambda>c. c \<in> set faults), now = 100, freshChannelId = ''ch8'',
      freshTicketId = ''t8''\<rparr>"

definition exOptions :: "string \<Rightarrow> ITicketCreationOptions" where
  "exOptions u =
     \<lparr>userId = u, guildId = ''g1'', categoryId = ''c1'', fromChatbot = False,
      originalMessage = None, additionalContext = None\<rparr>"

definition exButton :: "string \<Rightarrow> string \<Rightarrow> string \<Rightarrow> bool \<Rightarrow> string list \<Rightarrow> ButtonInteraction" where
  "exButton u c custom manage roles =
     \<lparr>i_userId = u, i_userTag = u, i_channelId = c, i_guildId = ''g1'', customId = custom,
      isButton = True, manageChannels = manage, memberRoles = roles, hasMessage = True\<rparr>"

definition exOpener :: ButtonInteraction where
  "exOpener = exButton ''s1'' ''ch7'' ''ticket_delete'' True []"

definition exConfirm :: ButtonInteraction where
  "exConfirm = exButton ''s1'' ''ch7'' ''confirm_delete'' True []"

definition exCollector :: Collector where
  "exCollector =
     \<lparr>opener = exOpener, heldTicket = exTicket ''t7'' 7 ''ch7'' ''u1'' OPEN None,
      timeLimit = 30000, ended = False, collected = [], suspended = [], scheduled = 0\<rparr>"

section \<open>Reading a trace\<close>

fun isChannelDelete :: "Event \<Rightarrow> bool" where
  "isChannelDelete (Done (ChannelDeleted c)) = True"
| "isChannelDelete (Threw (ChannelDeleted c)) = True"
| "isChannelDelete ev = False"

fun isStatusWrite :: "Event \<Rightarrow> bool" where
  "isStatusWrite (Done (StatusWritten tid st actor reason)) = True"
| "isStatusWrite ev = False"

section \<open>Evaluation and helper facts\<close>

lemmas ex_defs = exCategory_def exConfig_def exTicket_def exStore_def exWorld_def exEnv_def
  exOptions_def exButton_def

lemmas saga_defs = createTicket_def createTicket_try_def createTicket_step2_def
  createTicket_step5_def checkExistingTicket_def closeStaleTicket_def
  validateCreationPrerequisites_def createDiscordChannel_def sendWelcomeMessage_def
  generateWelcomeMessage_def channelDelete_def repoCreateTicket_def getGuildTickets_def
  getGuildConfig_def getTicketCategory_def updateTicketStatus_def writeStatus_def emit_def
  truthy_def failure_def channelMention_def nl_def Let_def

lemmas handler_defs = handleArchiveButton_def handleReopenButton_def reopenPermissions_def
  closeTicket_def mayClose_def handleCloseButton_def handleClaimButton_def unclaimBranch_def
  alreadyClaimedBranch_def claimBranch_def claimControls_def hasPermission_def catchReply_def
  emit_def truthy_def Let_def getTicketByChannelId_def updateTicketStatus_def writeStatus_def
  setClaimant_def claimTicket_def unclaimTicket_def

lemmas collector_defs = handleDeleteButton_def onCollect_def onTimer_def onEnd_def notifyCreator_def
  stopCollector_def collectorRun_def collectorFilter_def channelDelete_def catchReply_def
  getTicketByChannelId_def updateTicketStatus_def writeStatus_def emit_def Let_def
  exOpener_def exConfirm_def exCollector_def

lemma channelName_8: "padStart 4 (CHR ''0'') (toString 8) = ''0008''"
  by code_simp

lemma createDiscordChannel_Some:
  assumes "createDiscordChannel e w cat u = (Some c, w1)"
  shows "channels w1 c = Some ''ticket-new'' \<and> c = freshChannelId e \<and> store w1 = store w
     \<and> guilds w1 = guilds w"
  using assms by (auto simp: createDiscordChannel_def emit_def Let_def split: if_splits)

lemma createTicket_step5_channels:
  assumes "createTicket_step5 e w options cat c = (Inl u, cc, w1)"
  shows "cc = Some c \<and> channels w1 = channels w"
  using assms
  by (auto simp: createTicket_step5_def emit_def Let_def sendWelcomeMessage_def
      split: if_splits option.splits prod.splits)

text \<open>
  Once the existing-ticket check, the validation, the guild lookup and the provisioning have
  gone through, the rest of the \<^verbatim>\<open>try\<close> block is step 5 onwards.
\<close>

lemma createTicket_try_provisioned:
  assumes "checkExistingTicket e w (userId options) (guildId options) = (None, w0)"
    and "validateCreationPrerequisites e (store w0) (guildId options) (categoryId options)
           = Inr (guildConfig, cat)"
    and "guildId options \<in> set (guilds w0)"
    and "createDiscordChannel e w0 cat (userId options) = (Some c, w1)"
  shows "createTicket_try e w options = createTicket_step5 e w1 options cat c"
  using assms by (simp add: createTicket_try_def createTicket_step2_def)

text \<open>A rejected insert is one of the throws of step 5: the block throws holding the channel.\<close>

lemma createTicket_step5_persistence_throws:
  assumes "throws e RepoCreateTicket"
  shows "createTicket_step5 e w options cat c
           = (Inl (), Some c,
              emit (Threw (TicketInserted (guildId options) (userId options) c
                             (categoryId options))) w)"
  using assms by (simp add: createTicket_step5_def Let_def)

lemma first_open_in_store:
  assumes "filter (\<lambda>x. creatorId x = u \<and> status x = OPEN) (getGuildTickets s g) = t # rest"
  shows "t \<in> set (tickets s) \<and> creatorId t = u \<and> status t = OPEN \<and> ticketGuildId t = g"
proof -
  have "t \<in> set (filter (\<lambda>x. creatorId x = u \<and> status x = OPEN) (getGuildTickets s g))"
    using assms by simp
  then show ?thesis by (auto simp: getGuildTickets_def)
qed

text \<open>A write that keeps the channel ids keeps which ticket a channel finds.\<close>

lemma find_channel_map:
  assumes "\<And>x. channelId (f x) = channelId x"
  shows "find (\<lambda>t. channelId t = c) (map f xs) = map_option f (find (\<lambda>t. channelId t = c) xs)"
  by (induction xs) (auto simp: assms)

lemma getTicketByChannelId_updateTicketStatus:
  assumes "getTicketByChannelId s c = Some t"
  shows "getTicketByChannelId (updateTicketStatus clock s (ticket_id t) st actor reason) c
           = Some (writeStatus clock st actor reason t)"
proof -
  have "find (\<lambda>x. channelId x = c)
          (map (\<lambda>x. if ticket_id x = ticket_id t then writeStatus clock st actor reason x else x)
             (tickets s))
        = map_option (\<lambda>x. if ticket_id x = ticket_id t then writeStatus clock st actor reason x else x)
            (find (\<lambda>x. channelId x = c) (tickets s))"
    by (rule find_channel_map) (simp add: writeStatus_def)
  then show ?thesis
    using assms by (simp add: getTicketByChannelId_def updateTicketStatus_def)
qed

lemma getTicketByChannelId_setClaimant:
  assumes "getTicketByChannelId s c = Some t"
  shows "getTicketByChannelId (setClaimant s (ticket_id t) who) c = Some (t\<lparr>claimedById := who\<rparr>)"
proof -
  have "find (\<lambda>x. channelId x = c)
          (map (\<lambda>x. if ticket_id x = ticket_id t then x\<lparr>claimedById := who\<rparr> else x) (tickets s))
        = map_option (\<lambda>x. if ticket_id x = ticket_id t then x\<lparr>claimedById := who\<rparr> else x)
            (find (\<lambda>x. channelId x = c) (tickets s))"
    by (rule find_channel_map) simp
  then show ?thesis
    using assms by (simp add: getTicketByChannelId_def setClaimant_def)
qed

lemma unclaimBranch_store:
  assumes "\<not> throws e DeferReply" and "\<not> throws e UnclaimTicket"
  shows "store (unclaimBranch e w interaction t) = unclaimTicket (store w) (ticket_id t)
       \<and> Done (UnclaimWritten (ticket_id t)) \<in> set (trace (unclaimBranch e w interaction t))"
  using assms by (simp add: unclaimBranch_def claimControls_def catchReply_def emit_def Let_def)

lemma claimBranch_store:
  assumes "hasPermission interaction t" and "\<not> throws e DeferReply" and "\<not> throws e ClaimTicket"
  shows "store (claimBranch e w interaction t)
           = claimTicket (store w) (ticket_id t) (i_userId interaction)"
  using assms by (simp add: claimBranch_def claimControls_def catchReply_def emit_def Let_def)

lemma notifyCreator_trace:
  "\<exists>dm. trace (notifyCreator e v col) = trace v @ dm \<and> filter isChannelDelete dm = []"
  by (simp add: notifyCreator_def emit_def Let_def)

lemma notifyCreator_store: "store (notifyCreator e v col) = store v"
  by (simp add: notifyCreator_def emit_def Let_def)

lemma onTimer_trace:
  "\<exists>attempt after. trace (onTimer e col v) = trace v @ attempt # after \<and> isChannelDelete attempt"
  by (simp add: onTimer_def channelDelete_def emit_def Let_def)

lemma onTimer_store: "store (onTimer e col v) = store v"
  by (simp add: onTimer_def channelDelete_def emit_def Let_def)

section \<open>The creation saga\<close>

text \<open>
  C1. Take a run of createTicket in which the channel \<open>c\<close> has been provisioned (the check
  for an existing ticket, the validation and the guild lookup went through and
  createDiscordChannel returned \<open>c\<close>) and a later step throws (a rejected insert of the ticket
  row is such a throw, see \<open>createTicket_step5_persistence_throws\<close>). Then createTicket answers
  with the failure result (success=false and an error message), and the last thing it does
  before returning is the call that deletes \<open>c\<close>: the channel is gone exactly when that call
  does not throw, and the result is the same failure whether it throws or not. The store is
  left as the throwing step left it.
\<close>

theorem createTicket_rollback:
  assumes chk: "checkExistingTicket e w (userId options) (guildId options) = (None, w0)"
    and val: "validateCreationPrerequisites e (store w0) (guildId options) (categoryId options)
                = Inr (guildConfig, cat)"
    and gld: "guildId options \<in> set (guilds w0)"
    and prov: "createDiscordChannel e w0 cat (userId options) = (Some c, w1)"
    and thr: "createTicket_step5 e w1 options cat c = (Inl u, held, w2)"
  shows "fst (createTicket e w options)
           = failure ''An unexpected error occurred while creating the ticket''
       \<and> success (fst (createTicket e w options)) = False
       \<and> error (fst (createTicket e w options))
           = Some ''An unexpected error occurred while creating the ticket''
       \<and> store (snd (createTicket e w options)) = store w2
       \<and> trace (snd (createTicket e w options))
           = trace w2 @ [if throws e ChannelDelete then Threw (ChannelDeleted c)
                         else Done (ChannelDeleted c)]
       \<and> (channels (snd (createTicket e w options)) c = None) = (\<not> throws e ChannelDelete)"
proof -
  have body: "createTicket_try e w options = (Inl u, held, w2)"
    using createTicket_try_provisioned [OF chk val gld prov] thr by simp
  have held: "held = Some c" and ch: "channels w2 c = Some ''ticket-new''"
    using createTicket_step5_channels [OF thr] createDiscordChannel_Some [OF prov] by auto
  show ?thesis
    using body held ch by (simp add: createTicket_def channelDelete_def emit_def failure_def)
qed

theorem createTicket_rollback_witness:
  "fst (createTicket (exEnv [RepoCreateTicket]) (exWorld [] []) (exOptions ''u1''))
     = failure ''An unexpected error occurred while creating the ticket''
   \<and> success (fst (createTicket (exEnv [RepoCreateTicket]) (exWorld [] []) (exOptions ''u1'')))
       = False
   \<and> trace (snd (createTicket (exEnv [RepoCreateTicket]) (exWorld [] []) (exOptions ''u1'')))
       = [Done (ChannelCreated ''ch8'' ''p1'' ''u1''), Done (PermissionGranted ''ch8'' ''r1''),
          Threw (TicketInserted ''g1'' ''u1'' ''ch8'' ''c1''), Done (ChannelDeleted ''ch8'')]
   \<and> channels (snd (createTicket (exEnv [RepoCreateTicket]) (exWorld [] []) (exOptions ''u1'')))
        ''ch8'' = None
   \<and> success (fst (createTicket (exEnv [RepoCreateTicket, ChannelDelete]) (exWorld [] [])
        (exOptions ''u1''))) = False
   \<and> trace (snd (createTicket (exEnv [RepoCreateTicket, ChannelDelete]) (exWorld [] [])
        (exOptions ''u1'')))
       = [Done (ChannelCreated ''ch8'' ''p1'' ''u1''), Done (PermissionGranted ''ch8'' ''r1''),
          Threw (TicketInserted ''g1'' ''u1'' ''ch8'' ''c1''), Threw (ChannelDeleted ''ch8'')]"
proof -
  define w1 where
    "w1 = snd (createDiscordChannel (exEnv [RepoCreateTicket]) (exWorld [] []) exCategory ''u1'')"
  define v1 where
    "v1 = snd (createDiscordChannel (exEnv [RepoCreateTicket, ChannelDelete]) (exWorld [] [])
             exCategory ''u1'')"
  have chk: "checkExistingTicket (exEnv [RepoCreateTicket]) (exWorld [] [])
      (userId (exOptions ''u1'')) (guildId (exOptions ''u1'')) = (None, exWorld [] [])"
    and chk': "checkExistingTicket (exEnv [RepoCreateTicket, ChannelDelete]) (exWorld [] [])
      (userId (exOptions ''u1'')) (guildId (exOptions ''u1'')) = (None, exWorld [] [])"
    by (simp_all add: saga_defs ex_defs)
  have val: "validateCreationPrerequisites (exEnv [RepoCreateTicket]) (store (exWorld [] []))
      (guildId (exOptions ''u1'')) (categoryId (exOptions ''u1'')) = Inr (exConfig, exCategory)"
    and val': "validateCreationPrerequisites (exEnv [RepoCreateTicket, ChannelDelete])
      (store (exWorld [] [])) (guildId (exOptions ''u1'')) (categoryId (exOptions ''u1''))
        = Inr (exConfig, exCategory)"
    by (simp_all add: saga_defs ex_defs)
  have gld: "guildId (exOptions ''u1'') \<in> set (guilds (exWorld [] []))"
    by (simp add: ex_defs)
  have prov: "createDiscordChannel (exEnv [RepoCreateTicket]) (exWorld [] []) exCategory
      (userId (exOptions ''u1'')) = (Some ''ch8'', w1)"
    unfolding w1_def by (simp add: saga_defs ex_defs)
  have prov': "createDiscordChannel (exEnv [RepoCreateTicket, ChannelDelete]) (exWorld [] [])
      exCategory (userId (exOptions ''u1'')) = (Some ''ch8'', v1)"
    unfolding v1_def by (simp add: saga_defs ex_defs)
  have th: "throws (exEnv [RepoCreateTicket]) RepoCreateTicket"
    and th': "throws (exEnv [RepoCreateTicket, ChannelDelete]) RepoCreateTicket"
    and nd: "\<not> throws (exEnv [RepoCreateTicket]) ChannelDelete"
    and yd: "throws (exEnv [RepoCreateTicket, ChannelDelete]) ChannelDelete"
    by (simp_all add: ex_defs)
  have t1: "trace w1 = [Done (ChannelCreated ''ch8'' ''p1'' ''u1''),
      Done (PermissionGranted ''ch8'' ''r1'')]"
    unfolding w1_def by (simp add: saga_defs ex_defs)
  have t1': "trace v1 = [Done (ChannelCreated ''ch8'' ''p1'' ''u1''),
      Done (PermissionGranted ''ch8'' ''r1'')]"
    unfolding v1_def by (simp add: saga_defs ex_defs)
  from createTicket_rollback [OF chk val gld prov
      createTicket_step5_persistence_throws [OF th]]
    createTicket_rollback [OF chk' val' gld prov'
      createTicket_step5_persistence_throws [OF th']]
    nd yd t1 t1'
  show ?thesis by (simp add: emit_def ex_defs failure_def)
qed

text \<open>
  What the code does in every run in which provisioning and the insert of the ticket row
  succeed and the rename of step 6 throws: the throw reaches the \<^verbatim>\<open>catch\<close> block, the
  deletion of the provisioned channel is called, the generic failure is returned, and the
  row inserted in step 5 is still in the store, OPEN and bound to that channel.
\<close>

lemma createTicket_rename_failure:
  assumes chk: "checkExistingTicket e w (userId options) (guildId options) = (None, w0)"
    and val: "validateCreationPrerequisites e (store w0) (guildId options) (categoryId options)
                = Inr (guildConfig, cat)"
    and gld: "guildId options \<in> set (guilds w0)"
    and prov: "createDiscordChannel e w0 cat (userId options) = (Some c, w1)"
    and nothrow: "\<not> throws e RepoCreateTicket"
    and ins: "repoCreateTicket e (store w1) (guildId options) (userId options) c
                (categoryId options) = Some (t, s')"
    and ren: "throws e SetName"
  shows "fst (createTicket e w options)
           = failure ''An unexpected error occurred while creating the ticket''
       \<and> store (snd (createTicket e w options)) = s'
       \<and> t \<in> set (tickets s') \<and> status t = OPEN \<and> channelId t = c
       \<and> trace (snd (createTicket e w options))
           = trace w1 @
             [Done (TicketInserted (guildId options) (userId options) c (categoryId options)),
              Threw (ChannelRenamed c
                       (''ticket-'' @ padStart 4 (CHR ''0'') (toString (ticketNumber t)))),
              if throws e ChannelDelete then Threw (ChannelDeleted c)
              else Done (ChannelDeleted c)]
       \<and> (channels (snd (createTicket e w options)) c = None) = (\<not> throws e ChannelDelete)"
proof -
  have c1: "channels w1 c = Some ''ticket-new''"
    using createDiscordChannel_Some [OF prov] by auto
  have tk: "t \<in> set (tickets s') \<and> status t = OPEN \<and> channelId t = c"
    using ins by (auto simp: repoCreateTicket_def Let_def split: option.splits)
  have "createTicket_try e w options
          = (Inl (), Some c,
             emit (Threw (ChannelRenamed c
                     (''ticket-'' @ padStart 4 (CHR ''0'') (toString (ticketNumber t)))))
               (emit (Done (TicketInserted (guildId options) (userId options) c
                       (categoryId options))) (w1\<lparr>store := s'\<rparr>)))"
    using createTicket_try_provisioned [OF chk val gld prov] nothrow ins ren
    by (simp add: createTicket_step5_def Let_def)
  then show ?thesis using c1 tk
    by (simp add: createTicket_def channelDelete_def emit_def)
qed

text \<open>
  C2: a rename that fails in step 6 is meant to cost nothing, createTicket still returning
  success with the persisted ticket and keeping the channel. The code awaits \<^verbatim>\<open>setName\<close> in
  the \<^verbatim>\<open>try\<close> block with no \<^verbatim>\<open>try\<close>/\<^verbatim>\<open>catch\<close> of its own, unlike the grant to the support role
  before it and the welcome message after it, so a failed rename runs the \<^verbatim>\<open>catch\<close> block
  that was written for a failed insert. In the empty guild with only the rename rejecting:
  the channel is created and ticket 8 inserted, then the channel is deleted and the failure
  returned, and the store keeps ticket 8 as OPEN on the deleted channel, with the guild's
  counter advanced.
\<close>

theorem rename_failure_aborts_ticket:
  "trace (snd (createTicket (exEnv [SetName]) (exWorld [] []) (exOptions ''u1'')))
     = [Done (ChannelCreated ''ch8'' ''p1'' ''u1''), Done (PermissionGranted ''ch8'' ''r1''),
        Done (TicketInserted ''g1'' ''u1'' ''ch8'' ''c1''),
        Threw (ChannelRenamed ''ch8'' ''ticket-0008''), Done (ChannelDeleted ''ch8'')]
   \<and> fst (createTicket (exEnv [SetName]) (exWorld [] []) (exOptions ''u1''))
       = failure ''An unexpected error occurred while creating the ticket''
   \<and> success (fst (createTicket (exEnv [SetName]) (exWorld [] []) (exOptions ''u1''))) = False
   \<and> channels (snd (createTicket (exEnv [SetName]) (exWorld [] []) (exOptions ''u1''))) ''ch8''
       = None
   \<and> map (\<lambda>t. (ticketNumber t, status t, channelId t))
        (tickets (store (snd (createTicket (exEnv [SetName]) (exWorld [] []) (exOptions ''u1'')))))
       = [(8, OPEN, ''ch8'')]
   \<and> map globalTicketCount
        (guildConfigs (store (snd (createTicket (exEnv [SetName]) (exWorld [] [])
           (exOptions ''u1''))))) = [8]"
  by (simp add: saga_defs ex_defs channelName_8)

text \<open>
  C3, as the code has it. Take a creation request of a user who has one OPEN ticket \<open>t\<close> in
  the guild, in a run in which the listing of the guild's tickets succeeds. If the channel of
  \<open>t\<close> resolves, createTicket answers with the duplicate-ticket failure that mentions this
  channel and does nothing else (the world is unchanged: nothing is provisioned). If it does
  not resolve, \<open>t\<close> is handed to the status write CLOSED by "system" with the reason
  "Ticket channel was deleted", and creation goes on with step 2 in the world after that
  write; when the write does not throw, every row with the ticket's id is CLOSED with that
  reason.
\<close>

theorem createTicket_existing_ticket:
  assumes rd: "\<not> throws e GetGuildTickets"
    and fst_open: "filter (\<lambda>x. creatorId x = userId options \<and> status x = OPEN)
              (getGuildTickets (store w) (guildId options)) = [t]"
  shows "(channels w (channelId t) \<noteq> None \<longrightarrow>
            createTicket e w options
              = (failure (''You already have an open ticket: '' @ channelMention (channelId t)), w))
       \<and> (channels w (channelId t) = None \<longrightarrow>
            checkExistingTicket e w (userId options) (guildId options)
              = (None, closeStaleTicket e w t)
            \<and> createTicket_try e w options = createTicket_step2 e (closeStaleTicket e w t) options)
       \<and> (\<not> throws e UpdateTicketStatus \<longrightarrow>
            trace (closeStaleTicket e w t)
              = trace w @ [Done (StatusWritten (ticket_id t) CLOSED (Some ''system'')
                                   (Some ''Ticket channel was deleted''))]
            \<and> store (closeStaleTicket e w t)
                = updateTicketStatus (now e) (store w) (ticket_id t) CLOSED (Some ''system'')
                    (Some ''Ticket channel was deleted'')
            \<and> writeStatus (now e) CLOSED (Some ''system'') (Some ''Ticket channel was deleted'') t
                 \<in> set (tickets (store (closeStaleTicket e w t)))
            \<and> (\<forall>x \<in> set (tickets (store (closeStaleTicket e w t))).
                  ticket_id x = ticket_id t \<longrightarrow>
                    status x = CLOSED \<and> closedById x = Some ''system''
                    \<and> closeReason x = Some ''Ticket channel was deleted''))"
proof -
  have mem: "t \<in> set (tickets (store w))"
    using first_open_in_store [OF fst_open] by simp
  have live: "channels w (channelId t) \<noteq> None \<longrightarrow>
      createTicket e w options
        = (failure (''You already have an open ticket: '' @ channelMention (channelId t)), w)"
    using rd fst_open
    by (auto simp: createTicket_def createTicket_try_def checkExistingTicket_def)
  have stale: "channels w (channelId t) = None \<longrightarrow>
      checkExistingTicket e w (userId options) (guildId options) = (None, closeStaleTicket e w t)
      \<and> createTicket_try e w options = createTicket_step2 e (closeStaleTicket e w t) options"
    using rd fst_open
    by (simp add: createTicket_try_def checkExistingTicket_def)
  have wr: "\<not> throws e UpdateTicketStatus \<longrightarrow>
      trace (closeStaleTicket e w t)
        = trace w @ [Done (StatusWritten (ticket_id t) CLOSED (Some ''system'')
                             (Some ''Ticket channel was deleted''))]
      \<and> store (closeStaleTicket e w t)
        = updateTicketStatus (now e) (store w) (ticket_id t) CLOSED (Some ''system'')
            (Some ''Ticket channel was deleted'')"
    by (simp add: closeStaleTicket_def emit_def Let_def)
  have inn: "writeStatus (now e) CLOSED (Some ''system'') (Some ''Ticket channel was deleted'') t
      \<in> set (tickets (updateTicketStatus (now e) (store w) (ticket_id t) CLOSED (Some ''system'')
            (Some ''Ticket channel was deleted'')))"
    using mem by (force simp: updateTicketStatus_def)
  have allc: "\<forall>x \<in> set (tickets (updateTicketStatus (now e) (store w) (ticket_id t) CLOSED
        (Some ''system'') (Some ''Ticket channel was deleted''))).
      ticket_id x = ticket_id t \<longrightarrow>
        status x = CLOSED \<and> closedById x = Some ''system''
        \<and> closeReason x = Some ''Ticket channel was deleted''"
    by (auto simp: updateTicketStatus_def writeStatus_def)
  show ?thesis using live stale wr inn allc by simp
qed

theorem createTicket_existing_ticket_witness:
  "createTicket (exEnv []) (exWorld [exTicket ''t7'' 7 ''ch7'' ''u1'' OPEN None] [''ch7''])
       (exOptions ''u1'')
     = (failure ''You already have an open ticket: <#ch7>'',
        exWorld [exTicket ''t7'' 7 ''ch7'' ''u1'' OPEN None] [''ch7''])
   \<and> map status (tickets (store (closeStaleTicket (exEnv [])
        (exWorld [exTicket ''t7'' 7 ''ch7'' ''u1'' OPEN None] [])
        (exTicket ''t7'' 7 ''ch7'' ''u1'' OPEN None))))
     = [CLOSED]
   \<and> createTicket_try (exEnv []) (exWorld [exTicket ''t7'' 7 ''ch7'' ''u1'' OPEN None] [])
        (exOptions ''u1'')
     = createTicket_step2 (exEnv [])
         (closeStaleTicket (exEnv []) (exWorld [exTicket ''t7'' 7 ''ch7'' ''u1'' OPEN None] [])
            (exTicket ''t7'' 7 ''ch7'' ''u1'' OPEN None))
         (exOptions ''u1'')"
proof -
  have rd: "\<not> throws (exEnv []) GetGuildTickets" by (simp add: ex_defs)
  have nu: "\<not> throws (exEnv []) UpdateTicketStatus" by (simp add: ex_defs)
  have f1: "filter (\<lambda>x. creatorId x = userId (exOptions ''u1'') \<and> status x = OPEN)
      (getGuildTickets (store (exWorld [exTicket ''t7'' 7 ''ch7'' ''u1'' OPEN None] [''ch7'']))
         (guildId (exOptions ''u1''))) = exTicket ''t7'' 7 ''ch7'' ''u1'' OPEN None # []"
    by (simp add: ex_defs getGuildTickets_def)
  have f2: "filter (\<lambda>x. creatorId x = userId (exOptions ''u1'') \<and> status x = OPEN)
      (getGuildTickets (store (exWorld [exTicket ''t7'' 7 ''ch7'' ''u1'' OPEN None] []))
         (guildId (exOptions ''u1''))) = exTicket ''t7'' 7 ''ch7'' ''u1'' OPEN None # []"
    by (simp add: ex_defs getGuildTickets_def)
  have live: "channels (exWorld [exTicket ''t7'' 7 ''ch7'' ''u1'' OPEN None] [''ch7''])
      (channelId (exTicket ''t7'' 7 ''ch7'' ''u1'' OPEN None)) \<noteq> None"
    by (simp add: ex_defs)
  have gone: "channels (exWorld [exTicket ''t7'' 7 ''ch7'' ''u1'' OPEN None] [])
      (channelId (exTicket ''t7'' 7 ''ch7'' ''u1'' OPEN None)) = None"
    by (simp add: ex_defs)
  have st: "map status (tickets (store (closeStaleTicket (exEnv [])
        (exWorld [exTicket ''t7'' 7 ''ch7'' ''u1'' OPEN None] [])
        (exTicket ''t7'' 7 ''ch7'' ''u1'' OPEN None))))
     = [CLOSED]"
    by (simp add: saga_defs ex_defs)
  have cm: "channelMention (channelId (exTicket ''t7'' 7 ''ch7'' ''u1'' OPEN None)) = ''<#ch7>''"
    by (simp add: channelMention_def ex_defs)
  from createTicket_existing_ticket [OF rd f1] createTicket_existing_ticket [OF rd f2]
    live gone nu st cm
  show ?thesis by simp
qed

text \<open>
  Against C3 as stated: the stale ticket of \<^verbatim>\<open>u1\<close> is closed by the call
  \<^verbatim>\<open>updateTicketStatus(id, CLOSED, "system", "Ticket channel was deleted")\<close>, so the reason on
  the closed ticket is "Ticket channel was deleted" and not "channel missing".
\<close>

theorem createTicket_existing_ticket_counterexample:
  "trace (closeStaleTicket (exEnv []) (exWorld [exTicket ''t6'' 6 ''ch6'' ''u1'' OPEN None] [])
      (exTicket ''t6'' 6 ''ch6'' ''u1'' OPEN None))
     = [Done (StatusWritten ''t6'' CLOSED (Some ''system'') (Some ''Ticket channel was deleted''))]
   \<and> map (\<lambda>t. (status t, closeReason t)) (tickets (store (snd (createTicket (exEnv [])
        (exWorld [exTicket ''t6'' 6 ''ch6'' ''u1'' OPEN None] []) (exOptions ''u1'')))))
       = [(CLOSED, Some ''Ticket channel was deleted''), (OPEN, None)]
   \<and> map closeReason (tickets (store (snd (createTicket (exEnv [])
        (exWorld [exTicket ''t6'' 6 ''ch6'' ''u1'' OPEN None] []) (exOptions ''u1'')))))
       \<noteq> [Some ''channel missing'', None]"
  by (simp add: saga_defs ex_defs channelName_8)

text \<open>
  Where the user has several OPEN tickets the check fails its own description ("Existing open
  ticket or null"): it looks at the first one listed only. Below the first is stale and the
  second has a channel that resolves; the check closes the first and answers null, and
  createTicket opens a third ticket beside the live one.
\<close>

lemma checkExistingTicket_sees_first_only:
  "fst (checkExistingTicket (exEnv [])
      (exWorld [exTicket ''t6'' 6 ''ch6'' ''u1'' OPEN None, exTicket ''t7'' 7 ''ch7'' ''u1'' OPEN None]
         [''ch7'']) ''u1'' ''g1'') = None
   \<and> success (fst (createTicket (exEnv [])
      (exWorld [exTicket ''t6'' 6 ''ch6'' ''u1'' OPEN None, exTicket ''t7'' 7 ''ch7'' ''u1'' OPEN None]
         [''ch7''])
      (exOptions ''u1''))) = True
   \<and> map (\<lambda>t. (ticket_id t, status t)) (tickets (store (snd (createTicket (exEnv [])
        (exWorld [exTicket ''t6'' 6 ''ch6'' ''u1'' OPEN None,
                  exTicket ''t7'' 7 ''ch7'' ''u1'' OPEN None] [''ch7''])
        (exOptions ''u1'')))))
       = [(''t6'', CLOSED), (''t7'', OPEN), (''t8'', OPEN)]"
  by (simp add: saga_defs ex_defs channelName_8)

text \<open>
  C9. When the listing of the guild's tickets throws, checkExistingTicket answers null and
  leaves the world as it is, so the \<^verbatim>\<open>try\<close> block of createTicket is step 2 onwards in the
  unchanged world: validation runs, and when it passes and the guild is in the cache, the
  first thing the saga does is the call that provisions the channel.
\<close>

theorem checkExistingTicket_read_failure:
  assumes "throws e GetGuildTickets"
  shows "checkExistingTicket e w (userId options) (guildId options) = (None, w)
       \<and> createTicket_try e w options = createTicket_step2 e w options
       \<and> (\<forall>guildConfig cat.
            validateCreationPrerequisites e (store w) (guildId options) (categoryId options)
              = Inr (guildConfig, cat)
            \<and> guildId options \<in> set (guilds w) \<longrightarrow>
            (\<exists>ev rest. trace (snd (createTicket e w options)) = trace w @ ev # rest
               \<and> (ev = Done (ChannelCreated (freshChannelId e) (cat_categoryId cat) (userId options))
                  \<or> ev = Threw (ChannelCreated (freshChannelId e) (cat_categoryId cat)
                                  (userId options)))))"
proof -
  have a: "checkExistingTicket e w (userId options) (guildId options) = (None, w)"
    using assms by (simp add: checkExistingTicket_def)
  have b: "createTicket_try e w options = createTicket_step2 e w options"
    using a by (simp add: createTicket_try_def)
  have c: "\<exists>ev rest. trace (snd (createTicket e w options)) = trace w @ ev # rest
               \<and> (ev = Done (ChannelCreated (freshChannelId e) (cat_categoryId cat) (userId options))
                  \<or> ev = Threw (ChannelCreated (freshChannelId e) (cat_categoryId cat)
                                  (userId options)))"
    if "validateCreationPrerequisites e (store w) (guildId options) (categoryId options)
              = Inr (guildConfig, cat)" and "guildId options \<in> set (guilds w)"
    for guildConfig cat
    using that b
    by (auto simp: createTicket_def createTicket_step2_def createTicket_step5_def
        createDiscordChannel_def sendWelcomeMessage_def channelDelete_def emit_def Let_def
        split: option.splits prod.splits)
  show ?thesis using a b c by blast
qed

theorem checkExistingTicket_read_failure_witness:
  "checkExistingTicket (exEnv [GetGuildTickets])
       (exWorld [exTicket ''t7'' 7 ''ch7'' ''u1'' OPEN None] [''ch7''])
       (userId (exOptions ''u1'')) (guildId (exOptions ''u1''))
     = (None, exWorld [exTicket ''t7'' 7 ''ch7'' ''u1'' OPEN None] [''ch7''])
   \<and> success (fst (createTicket (exEnv [GetGuildTickets])
        (exWorld [exTicket ''t7'' 7 ''ch7'' ''u1'' OPEN None] [''ch7'']) (exOptions ''u1''))) = True
   \<and> hd (trace (snd (createTicket (exEnv [GetGuildTickets])
        (exWorld [exTicket ''t7'' 7 ''ch7'' ''u1'' OPEN None] [''ch7'']) (exOptions ''u1''))))
       = Done (ChannelCreated ''ch8'' ''p1'' ''u1'')"
proof -
  have th: "throws (exEnv [GetGuildTickets]) GetGuildTickets"
    by (simp add: ex_defs)
  have ev: "success (fst (createTicket (exEnv [GetGuildTickets])
        (exWorld [exTicket ''t7'' 7 ''ch7'' ''u1'' OPEN None] [''ch7'']) (exOptions ''u1''))) = True
   \<and> hd (trace (snd (createTicket (exEnv [GetGuildTickets])
        (exWorld [exTicket ''t7'' 7 ''ch7'' ''u1'' OPEN None] [''ch7'']) (exOptions ''u1''))))
       = Done (ChannelCreated ''ch8'' ''p1'' ''u1'')"
    by (simp add: saga_defs ex_defs channelName_8)
  from checkExistingTicket_read_failure [OF th,
      of "exWorld [exTicket ''t7'' 7 ''ch7'' ''u1'' OPEN None] [''ch7'']" "exOptions ''u1''"] ev
  show ?thesis by simp
qed

section \<open>The ticket state machine\<close>

text \<open>
  C7, as the code has it. For the ticket of the channel, in a run whose deferral and read
  succeed: when the status is ARCHIVED already, the handler answers "This ticket is already
  archived." and changes nothing in the store; otherwise, when the status write succeeds,
  it calls the write with status ARCHIVED, the acting user and the reason "Ticket archived",
  and the ticket of the channel then has status=ARCHIVED, closedBy=the acting user and
  closeReason="Ticket archived".
\<close>

theorem handleArchiveButton_transition:
  assumes df: "\<not> throws e DeferReply" and rd: "\<not> throws e GetTicketByChannelId"
    and tk: "getTicketByChannelId (store w) (i_channelId interaction) = Some t"
  shows "(status t = ARCHIVED \<longrightarrow>
            handleArchiveButton e w interaction
              = emit (Done (EditReply (ErrorEmbed ''This ticket is already archived.'')))
                  (emit (Done Deferred) w)
            \<and> store (handleArchiveButton e w interaction) = store w)
       \<and> (status t \<noteq> ARCHIVED \<and> \<not> throws e UpdateTicketStatus \<longrightarrow>
            Done (StatusWritten (ticket_id t) ARCHIVED (Some (i_userId interaction))
                    (Some ''Ticket archived''))
              \<in> set (trace (handleArchiveButton e w interaction))
            \<and> (\<exists>t'. getTicketByChannelId (store (handleArchiveButton e w interaction))
                       (i_channelId interaction) = Some t'
                  \<and> status t' = ARCHIVED \<and> closedById t' = Some (i_userId interaction)
                  \<and> closeReason t' = Some ''Ticket archived''))"
proof -
  have tk0: "getTicketByChannelId (store (emit (Done Deferred) w)) (i_channelId interaction) = Some t"
    using tk by (simp add: emit_def)
  have a: "status t = ARCHIVED \<longrightarrow>
            handleArchiveButton e w interaction
              = emit (Done (EditReply (ErrorEmbed ''This ticket is already archived.'')))
                  (emit (Done Deferred) w)"
    using df rd tk0 by (simp add: handleArchiveButton_def Let_def)
  have st: "status t \<noteq> ARCHIVED \<and> \<not> throws e UpdateTicketStatus \<longrightarrow>
      store (handleArchiveButton e w interaction)
        = updateTicketStatus (now e) (store w) (ticket_id t) ARCHIVED (Some (i_userId interaction))
            (Some ''Ticket archived'')"
    using df rd tk0
    by (simp add: handleArchiveButton_def Let_def emit_def catchReply_def)
  have tr: "status t \<noteq> ARCHIVED \<and> \<not> throws e UpdateTicketStatus \<longrightarrow>
      Done (StatusWritten (ticket_id t) ARCHIVED (Some (i_userId interaction))
                    (Some ''Ticket archived''))
              \<in> set (trace (handleArchiveButton e w interaction))"
    using df rd tk0
    by (simp add: handleArchiveButton_def Let_def emit_def catchReply_def)
  show ?thesis
    using a st tr getTicketByChannelId_updateTicketStatus [OF tk]
    by (auto simp: emit_def writeStatus_def)
qed

theorem handleArchiveButton_transition_witness:
  "map status (tickets (store (handleArchiveButton (exEnv [])
       (exWorld [exTicket ''t7'' 7 ''ch7'' ''u1'' CLOSED None] [''ch7''])
       (exButton ''s1'' ''ch7'' ''ticket_archive'' True [])))) = [ARCHIVED]
   \<and> map closedById (tickets (store (handleArchiveButton (exEnv [])
       (exWorld [exTicket ''t7'' 7 ''ch7'' ''u1'' CLOSED None] [''ch7''])
       (exButton ''s1'' ''ch7'' ''ticket_archive'' True [])))) = [Some ''s1'']
   \<and> handleArchiveButton (exEnv [])
       (exWorld [exTicket ''t7'' 7 ''ch7'' ''u1'' ARCHIVED None] [''ch7''])
       (exButton ''s1'' ''ch7'' ''ticket_archive'' True [])
     = emit (Done (EditReply (ErrorEmbed ''This ticket is already archived.'')))
         (emit (Done Deferred) (exWorld [exTicket ''t7'' 7 ''ch7'' ''u1'' ARCHIVED None] [''ch7'']))"
proof -
  have df: "\<not> throws (exEnv []) DeferReply" and rd: "\<not> throws (exEnv []) GetTicketByChannelId"
    and up: "\<not> throws (exEnv []) UpdateTicketStatus"
    by (simp_all add: ex_defs)
  have t1: "getTicketByChannelId
      (store (exWorld [exTicket ''t7'' 7 ''ch7'' ''u1'' CLOSED None] [''ch7'']))
      (i_channelId (exButton ''s1'' ''ch7'' ''ticket_archive'' True []))
        = Some (exTicket ''t7'' 7 ''ch7'' ''u1'' CLOSED None)"
    by (simp add: getTicketByChannelId_def ex_defs)
  have t2: "getTicketByChannelId
      (store (exWorld [exTicket ''t7'' 7 ''ch7'' ''u1'' ARCHIVED None] [''ch7'']))
      (i_channelId (exButton ''s1'' ''ch7'' ''ticket_archive'' True []))
        = Some (exTicket ''t7'' 7 ''ch7'' ''u1'' ARCHIVED None)"
    by (simp add: getTicketByChannelId_def ex_defs)
  have s1: "status (exTicket ''t7'' 7 ''ch7'' ''u1'' CLOSED None) \<noteq> ARCHIVED"
    and s2: "status (exTicket ''t7'' 7 ''ch7'' ''u1'' ARCHIVED None) = ARCHIVED"
    by (simp_all add: ex_defs)
  have ev: "map status (tickets (store (handleArchiveButton (exEnv [])
       (exWorld [exTicket ''t7'' 7 ''ch7'' ''u1'' CLOSED None] [''ch7''])
       (exButton ''s1'' ''ch7'' ''ticket_archive'' True [])))) = [ARCHIVED]
   \<and> map closedById (tickets (store (handleArchiveButton (exEnv [])
       (exWorld [exTicket ''t7'' 7 ''ch7'' ''u1'' CLOSED None] [''ch7''])
       (exButton ''s1'' ''ch7'' ''ticket_archive'' True [])))) = [Some ''s1'']"
    by (simp add: handler_defs ex_defs)
  from handleArchiveButton_transition [OF df rd t1] handleArchiveButton_transition [OF df rd t2]
    s1 s2 up ev
  show ?thesis by simp
qed

text \<open>
  Against C7 as stated: archiving an OPEN ticket calls the status write with the reason
  "Ticket archived", and that, not "archived", is the close reason the ticket then has.
\<close>

theorem handleArchiveButton_transition_counterexample:
  "trace (handleArchiveButton (exEnv [])
       (exWorld [exTicket ''t7'' 7 ''ch7'' ''u1'' OPEN None] [''ch7''])
       (exButton ''s1'' ''ch7'' ''ticket_archive'' True []))
     = [Done Deferred,
        Done (StatusWritten ''t7'' ARCHIVED (Some ''s1'') (Some ''Ticket archived'')),
        Done (ChannelMessage ''ch7'' (ArchivedEmbed ''s1'' 7)),
        Done (EditReply (SuccessEmbed ''Ticket archived successfully.''))]
   \<and> map closeReason (tickets (store (handleArchiveButton (exEnv [])
       (exWorld [exTicket ''t7'' 7 ''ch7'' ''u1'' OPEN None] [''ch7''])
       (exButton ''s1'' ''ch7'' ''ticket_archive'' True []))))
     = [Some ''Ticket archived'']
   \<and> map closeReason (tickets (store (handleArchiveButton (exEnv [])
       (exWorld [exTicket ''t7'' 7 ''ch7'' ''u1'' OPEN None] [''ch7''])
       (exButton ''s1'' ''ch7'' ''ticket_archive'' True []))))
     \<noteq> [Some ''archived'']"
  by (simp add: handler_defs ex_defs)

text \<open>
  C8. For the ticket of the channel, in a run whose deferral and read succeed: when the
  status is OPEN already, the reopen handler answers "This ticket is already open." and
  changes nothing in the store. Otherwise (from CLOSED or from ARCHIVED), when the status
  write succeeds, the ticket of the channel is OPEN afterwards with closedAt and closeReason
  cleared. In particular, when an actor with close permission (the creator, the claimant or
  staff) closes an OPEN ticket, which stamps closedAt and the reason, reopening it gives an
  OPEN ticket with closedAt and closeReason cleared, whatever the ticket's fields were
  before; an actor without close permission is refused and the store stays as it is. The
  write itself and the close are the record store's and the close modal's, modelled from
  the spec.
\<close>

theorem handleReopenButton_transition:
  assumes df: "\<not> throws e DeferReply" and rd: "\<not> throws e GetTicketByChannelId"
    and tk: "getTicketByChannelId (store w) (i_channelId interaction) = Some t"
    and same: "i_channelId closer = i_channelId interaction"
  shows "(status t = OPEN \<longrightarrow>
            handleReopenButton e w interaction
              = emit (Done (EditReply (ErrorEmbed ''This ticket is already open.'')))
                  (emit (Done Deferred) w)
            \<and> store (handleReopenButton e w interaction) = store w)
       \<and> (status t \<noteq> OPEN \<and> \<not> throws e UpdateTicketStatus \<longrightarrow>
            (\<exists>t'. getTicketByChannelId (store (handleReopenButton e w interaction))
                     (i_channelId interaction) = Some t'
                \<and> status t' = OPEN \<and> closedAt t' = None \<and> closeReason t' = None))
       \<and> (status t = OPEN \<and> mayClose closer t \<and> \<not> throws e UpdateTicketStatus \<longrightarrow>
            (\<exists>t1. getTicketByChannelId (store (closeTicket e w closer reason))
                     (i_channelId interaction) = Some t1
                \<and> status t1 = CLOSED \<and> closedById t1 = Some (i_userId closer)
                \<and> closedAt t1 = Some (now e) \<and> closeReason t1 = reason)
            \<and> (\<exists>t'. getTicketByChannelId
                       (store (handleReopenButton e (closeTicket e w closer reason) interaction))
                       (i_channelId interaction) = Some t'
                \<and> status t' = OPEN \<and> closedAt t' = None \<and> closeReason t' = None))
       \<and> (status t = OPEN \<and> \<not> mayClose closer t \<longrightarrow>
            closeTicket e w closer reason = emit (Done (Reply CloseDeniedEmbed)) w
            \<and> store (closeTicket e w closer reason) = store w)"
proof -
  have reopen: "store (handleReopenButton e v interaction)
          = updateTicketStatus (now e) (store v) (ticket_id x) OPEN None None"
    if "getTicketByChannelId (store v) (i_channelId interaction) = Some x"
      and "status x \<noteq> OPEN" and "\<not> throws e UpdateTicketStatus" for v x
    using that df rd
    by (simp add: handleReopenButton_def reopenPermissions_def Let_def emit_def catchReply_def)
  have reopened: "\<exists>t'. getTicketByChannelId (store (handleReopenButton e v interaction))
                     (i_channelId interaction) = Some t'
                \<and> status t' = OPEN \<and> closedAt t' = None \<and> closeReason t' = None"
    if "getTicketByChannelId (store v) (i_channelId interaction) = Some x"
      and "status x \<noteq> OPEN" and "\<not> throws e UpdateTicketStatus" for v x
    using reopen [OF that] getTicketByChannelId_updateTicketStatus [OF that(1)]
    by (simp add: writeStatus_def)
  have a: "status t = OPEN \<longrightarrow>
            handleReopenButton e w interaction
              = emit (Done (EditReply (ErrorEmbed ''This ticket is already open.'')))
                  (emit (Done Deferred) w)"
    using df rd tk by (simp add: handleReopenButton_def Let_def emit_def)
  have closed: "getTicketByChannelId (store (closeTicket e w closer reason))
                     (i_channelId interaction)
                  = Some (writeStatus (now e) CLOSED (Some (i_userId closer)) reason t)"
    if "status t = OPEN" and "mayClose closer t"
    using that tk same getTicketByChannelId_updateTicketStatus [OF tk]
    by (simp add: closeTicket_def emit_def)
  have denied: "closeTicket e w closer reason = emit (Done (Reply CloseDeniedEmbed)) w"
    if "status t = OPEN" and "\<not> mayClose closer t"
    using that tk same by (simp add: closeTicket_def)
  have c: "status t = OPEN \<and> mayClose closer t \<and> \<not> throws e UpdateTicketStatus \<longrightarrow>
            (\<exists>t'. getTicketByChannelId
                       (store (handleReopenButton e (closeTicket e w closer reason) interaction))
                       (i_channelId interaction) = Some t'
                \<and> status t' = OPEN \<and> closedAt t' = None \<and> closeReason t' = None)"
    using reopened [OF closed] by (simp add: writeStatus_def)
  show ?thesis
    using a reopened [OF tk] closed c denied by (auto simp: emit_def writeStatus_def)
qed

theorem handleReopenButton_transition_witness:
  "handleReopenButton (exEnv []) (exWorld [exTicket ''t7'' 7 ''ch7'' ''u1'' OPEN None] [''ch7''])
       (exButton ''s1'' ''ch7'' ''ticket_reopen'' True [])
     = emit (Done (EditReply (ErrorEmbed ''This ticket is already open.'')))
         (emit (Done Deferred) (exWorld [exTicket ''t7'' 7 ''ch7'' ''u1'' OPEN None] [''ch7'']))
   \<and> map status (tickets (store (closeTicket (exEnv [])
         (exWorld [exTicket ''t7'' 7 ''ch7'' ''u1'' OPEN None] [''ch7''])
         (exButton ''u1'' ''ch7'' ''ticket_close_modal'' False []) (Some ''done'')))) = [CLOSED]
   \<and> map closeReason (tickets (store (closeTicket (exEnv [])
         (exWorld [exTicket ''t7'' 7 ''ch7'' ''u1'' OPEN None] [''ch7''])
         (exButton ''u1'' ''ch7'' ''ticket_close_modal'' False []) (Some ''done''))))
       = [Some ''done'']
   \<and> map closedAt (tickets (store (closeTicket (exEnv [])
         (exWorld [exTicket ''t7'' 7 ''ch7'' ''u1'' OPEN None] [''ch7''])
         (exButton ''u1'' ''ch7'' ''ticket_close_modal'' False []) (Some ''done'')))) = [Some 100]
   \<and> map status (tickets (store (handleReopenButton (exEnv [])
         (closeTicket (exEnv []) (exWorld [exTicket ''t7'' 7 ''ch7'' ''u1'' OPEN None] [''ch7''])
            (exButton ''u1'' ''ch7'' ''ticket_close_modal'' False []) (Some ''done''))
         (exButton ''s1'' ''ch7'' ''ticket_reopen'' True [])))) = [OPEN]
   \<and> map closeReason (tickets (store (handleReopenButton (exEnv [])
         (closeTicket (exEnv []) (exWorld [exTicket ''t7'' 7 ''ch7'' ''u1'' OPEN None] [''ch7''])
            (exButton ''u1'' ''ch7'' ''ticket_close_modal'' False []) (Some ''done''))
         (exButton ''s1'' ''ch7'' ''ticket_reopen'' True [])))) = [None]
   \<and> map closedAt (tickets (store (handleReopenButton (exEnv [])
         (closeTicket (exEnv []) (exWorld [exTicket ''t7'' 7 ''ch7'' ''u1'' OPEN None] [''ch7''])
            (exButton ''u1'' ''ch7'' ''ticket_close_modal'' False []) (Some ''done''))
         (exButton ''s1'' ''ch7'' ''ticket_reopen'' True [])))) = [None]
   \<and> map status (tickets (store (handleReopenButton (exEnv [])
         (exWorld [exTicket ''t7'' 7 ''ch7'' ''u1'' ARCHIVED None] [''ch7''])
         (exButton ''s1'' ''ch7'' ''ticket_reopen'' True [])))) = [OPEN]
   \<and> closeTicket (exEnv []) (exWorld [exTicket ''t7'' 7 ''ch7'' ''u1'' OPEN None] [''ch7''])
         (exButton ''x9'' ''ch7'' ''ticket_close_modal'' False []) (Some ''done'')
       = emit (Done (Reply CloseDeniedEmbed))
           (exWorld [exTicket ''t7'' 7 ''ch7'' ''u1'' OPEN None] [''ch7''])"
proof -
  have df: "\<not> throws (exEnv []) DeferReply" and rd: "\<not> throws (exEnv []) GetTicketByChannelId"
    and up: "\<not> throws (exEnv []) UpdateTicketStatus"
    by (simp_all add: ex_defs)
  have t1: "getTicketByChannelId
      (store (exWorld [exTicket ''t7'' 7 ''ch7'' ''u1'' OPEN None] [''ch7'']))
      (i_channelId (exButton ''s1'' ''ch7'' ''ticket_reopen'' True []))
        = Some (exTicket ''t7'' 7 ''ch7'' ''u1'' OPEN None)"
    by (simp add: getTicketByChannelId_def ex_defs)
  have t2: "getTicketByChannelId
      (store (exWorld [exTicket ''t7'' 7 ''ch7'' ''u1'' ARCHIVED None] [''ch7'']))
      (i_channelId (exButton ''s1'' ''ch7'' ''ticket_reopen'' True []))
        = Some (exTicket ''t7'' 7 ''ch7'' ''u1'' ARCHIVED None)"
    by (simp add: getTicketByChannelId_def ex_defs)
  have same: "i_channelId (exButton ''u1'' ''ch7'' ''ticket_close_modal'' False [])
      = i_channelId (exButton ''s1'' ''ch7'' ''ticket_reopen'' True [])"
    by (simp add: ex_defs)
  have s1: "status (exTicket ''t7'' 7 ''ch7'' ''u1'' OPEN None) = OPEN"
    and s2: "status (exTicket ''t7'' 7 ''ch7'' ''u1'' ARCHIVED None) \<noteq> OPEN"
    by (simp_all add: ex_defs)
  have same': "i_channelId (exButton ''x9'' ''ch7'' ''ticket_close_modal'' False [])
      = i_channelId (exButton ''s1'' ''ch7'' ''ticket_reopen'' True [])"
    by (simp add: ex_defs)
  have mc: "mayClose (exButton ''u1'' ''ch7'' ''ticket_close_modal'' False [])
      (exTicket ''t7'' 7 ''ch7'' ''u1'' OPEN None)"
    and nmc: "\<not> mayClose (exButton ''x9'' ''ch7'' ''ticket_close_modal'' False [])
      (exTicket ''t7'' 7 ''ch7'' ''u1'' OPEN None)"
    by (simp_all add: mayClose_def hasPermission_def truthy_def ex_defs)
  have ev: "map status (tickets (store (closeTicket (exEnv [])
         (exWorld [exTicket ''t7'' 7 ''ch7'' ''u1'' OPEN None] [''ch7''])
         (exButton ''u1'' ''ch7'' ''ticket_close_modal'' False []) (Some ''done'')))) = [CLOSED]
   \<and> map closeReason (tickets (store (closeTicket (exEnv [])
         (exWorld [exTicket ''t7'' 7 ''ch7'' ''u1'' OPEN None] [''ch7''])
         (exButton ''u1'' ''ch7'' ''ticket_close_modal'' False []) (Some ''done''))))
       = [Some ''done'']
   \<and> map closedAt (tickets (store (closeTicket (exEnv [])
         (exWorld [exTicket ''t7'' 7 ''ch7'' ''u1'' OPEN None] [''ch7''])
         (exButton ''u1'' ''ch7'' ''ticket_close_modal'' False []) (Some ''done'')))) = [Some 100]
   \<and> map status (tickets (store (handleReopenButton (exEnv [])
         (closeTicket (exEnv []) (exWorld [exTicket ''t7'' 7 ''ch7'' ''u1'' OPEN None] [''ch7''])
            (exButton ''u1'' ''ch7'' ''ticket_close_modal'' False []) (Some ''done''))
         (exButton ''s1'' ''ch7'' ''ticket_reopen'' True [])))) = [OPEN]
   \<and> map closeReason (tickets (store (handleReopenButton (exEnv [])
         (closeTicket (exEnv []) (exWorld [exTicket ''t7'' 7 ''ch7'' ''u1'' OPEN None] [''ch7''])
            (exButton ''u1'' ''ch7'' ''ticket_close_modal'' False []) (Some ''done''))
         (exButton ''s1'' ''ch7'' ''ticket_reopen'' True [])))) = [None]
   \<and> map closedAt (tickets (store (handleReopenButton (exEnv [])
         (closeTicket (exEnv []) (exWorld [exTicket ''t7'' 7 ''ch7'' ''u1'' OPEN None] [''ch7''])
            (exButton ''u1'' ''ch7'' ''ticket_close_modal'' False []) (Some ''done''))
         (exButton ''s1'' ''ch7'' ''ticket_reopen'' True [])))) = [None]
   \<and> map status (tickets (store (handleReopenButton (exEnv [])
         (exWorld [exTicket ''t7'' 7 ''ch7'' ''u1'' ARCHIVED None] [''ch7''])
         (exButton ''s1'' ''ch7'' ''ticket_reopen'' True [])))) = [OPEN]"
    by (simp add: handler_defs ex_defs)
  from handleReopenButton_transition [OF df rd t1 same, of "Some ''done''"]
    handleReopenButton_transition [OF df rd t2 same, of "Some ''done''"]
    handleReopenButton_transition [OF df rd t1 same', of "Some ''done''"] s1 s2 up mc nmc ev
  show ?thesis by simp
qed

section \<open>The claim arbiter\<close>

text \<open>
  C4. Take a ticket nobody has claimed, a user A who may claim it, and a run in which the
  read, the deferral and the two claim writes succeed. After A's press the ticket's claimant
  is A. A second press by A then sets the claimant back to null. A press by another user B
  instead writes nothing: the handler only adds the already-claimed reply, which names A
  (when the lookup of A's user record fails, the same reply is sent and says "someone else"),
  and the claimant is still A.
\<close>

theorem handleClaimButton_toggle:
  assumes rd: "\<not> throws e GetTicketByChannelId" and df: "\<not> throws e DeferReply"
    and cl: "\<not> throws e ClaimTicket" and un: "\<not> throws e UnclaimTicket"
    and tk: "getTicketByChannelId (store w) c = Some t"
    and free: "\<not> truthy (claimedById t)"
    and perm: "hasPermission byA t"
    and chA: "i_channelId byA = c" and chB: "i_channelId byB = c"
    and a: "i_userId byA = a" and ne: "a \<noteq> []" and b: "i_userId byB \<noteq> a"
  shows "Done (ClaimWritten (ticket_id t) a) \<in> set (trace (handleClaimButton e w byA))
       \<and> map_option claimedById (getTicketByChannelId (store (handleClaimButton e w byA)) c)
           = Some (Some a)
       \<and> Done (UnclaimWritten (ticket_id t))
           \<in> set (trace (handleClaimButton e (handleClaimButton e w byA) byA))
       \<and> map_option claimedById
           (getTicketByChannelId (store (handleClaimButton e (handleClaimButton e w byA) byA)) c)
           = Some None
       \<and> handleClaimButton e (handleClaimButton e w byA) byB
           = emit (Done (Reply (AlreadyClaimedEmbed (if throws e UsersFetch then None else Some a))))
               (handleClaimButton e w byA)
       \<and> map_option claimedById
           (getTicketByChannelId (store (handleClaimButton e (handleClaimButton e w byA) byB)) c)
           = Some (Some a)"
proof -
  define w1 where "w1 = handleClaimButton e w byA"
  have s1: "store w1 = claimTicket (store w) (ticket_id t) a"
    unfolding w1_def using rd tk free chA a claimBranch_store [OF perm df cl]
    by (simp add: handleClaimButton_def)
  have t1: "getTicketByChannelId (store w1) c = Some (t\<lparr>claimedById := Some a\<rparr>)"
    using s1 getTicketByChannelId_setClaimant [OF tk] by (simp add: claimTicket_def)
  have s2: "store (handleClaimButton e w1 byA) = unclaimTicket (store w1) (ticket_id t)"
    using rd t1 chA a ne unclaimBranch_store [OF df un, of w1 byA "t\<lparr>claimedById := Some a\<rparr>"]
    by (simp add: handleClaimButton_def truthy_def)
  have t2: "getTicketByChannelId (store (handleClaimButton e w1 byA)) c
              = Some (t\<lparr>claimedById := None\<rparr>)"
    using s2 getTicketByChannelId_setClaimant [OF t1, of None] by (simp add: unclaimTicket_def)
  have s3: "handleClaimButton e w1 byB
           = emit (Done (Reply (AlreadyClaimedEmbed (if throws e UsersFetch then None else Some a))))
               w1"
    using rd t1 chB b ne
    by (simp add: handleClaimButton_def alreadyClaimedBranch_def truthy_def Let_def)
  have e1: "Done (ClaimWritten (ticket_id t) a) \<in> set (trace w1)"
    unfolding w1_def using rd tk free chA a perm df cl
    by (simp add: handleClaimButton_def claimBranch_def claimControls_def catchReply_def
        emit_def Let_def)
  have e2: "Done (UnclaimWritten (ticket_id t)) \<in> set (trace (handleClaimButton e w1 byA))"
    using rd t1 chA a ne unclaimBranch_store [OF df un, of w1 byA "t\<lparr>claimedById := Some a\<rparr>"]
    by (simp add: handleClaimButton_def truthy_def)
  show ?thesis
    using t1 t2 s3 e1 e2 unfolding w1_def by (simp add: emit_def)
qed

theorem handleClaimButton_toggle_witness:
  "map claimedById (tickets (store (handleClaimButton (exEnv [])
       (exWorld [exTicket ''t7'' 7 ''ch7'' ''u1'' OPEN None] [''ch7''])
       (exButton ''s1'' ''ch7'' ''ticket_claim'' False [''r1''])))) = [Some ''s1'']
   \<and> map claimedById (tickets (store (handleClaimButton (exEnv [])
       (handleClaimButton (exEnv []) (exWorld [exTicket ''t7'' 7 ''ch7'' ''u1'' OPEN None] [''ch7''])
          (exButton ''s1'' ''ch7'' ''ticket_claim'' False [''r1'']))
       (exButton ''s1'' ''ch7'' ''ticket_claim'' False [''r1''])))) = [None]
   \<and> handleClaimButton (exEnv [])
       (handleClaimButton (exEnv []) (exWorld [exTicket ''t7'' 7 ''ch7'' ''u1'' OPEN None] [''ch7''])
          (exButton ''s1'' ''ch7'' ''ticket_claim'' False [''r1'']))
       (exButton ''s2'' ''ch7'' ''ticket_claim'' True [])
     = emit (Done (Reply (AlreadyClaimedEmbed (Some ''s1''))))
         (handleClaimButton (exEnv []) (exWorld [exTicket ''t7'' 7 ''ch7'' ''u1'' OPEN None] [''ch7''])
            (exButton ''s1'' ''ch7'' ''ticket_claim'' False [''r1'']))
   \<and> map claimedById (tickets (store (handleClaimButton (exEnv [])
       (handleClaimButton (exEnv []) (exWorld [exTicket ''t7'' 7 ''ch7'' ''u1'' OPEN None] [''ch7''])
          (exButton ''s1'' ''ch7'' ''ticket_claim'' False [''r1'']))
       (exButton ''s2'' ''ch7'' ''ticket_claim'' True [])))) = [Some ''s1'']"
proof -
  have nf: "\<not> throws (exEnv []) GetTicketByChannelId" "\<not> throws (exEnv []) DeferReply"
    "\<not> throws (exEnv []) ClaimTicket" "\<not> throws (exEnv []) UnclaimTicket"
    "\<not> throws (exEnv []) UsersFetch"
    by (simp_all add: ex_defs)
  have tk: "getTicketByChannelId
      (store (exWorld [exTicket ''t7'' 7 ''ch7'' ''u1'' OPEN None] [''ch7'']))
      ''ch7'' = Some (exTicket ''t7'' 7 ''ch7'' ''u1'' OPEN None)"
    by (simp add: getTicketByChannelId_def ex_defs)
  have free: "\<not> truthy (claimedById (exTicket ''t7'' 7 ''ch7'' ''u1'' OPEN None))"
    by (simp add: truthy_def ex_defs)
  have perm: "hasPermission (exButton ''s1'' ''ch7'' ''ticket_claim'' False [''r1''])
      (exTicket ''t7'' 7 ''ch7'' ''u1'' OPEN None)"
    by (simp add: hasPermission_def truthy_def ex_defs)
  have ids: "i_channelId (exButton ''s1'' ''ch7'' ''ticket_claim'' False [''r1'']) = ''ch7''"
    "i_channelId (exButton ''s2'' ''ch7'' ''ticket_claim'' True []) = ''ch7''"
    "i_userId (exButton ''s1'' ''ch7'' ''ticket_claim'' False [''r1'']) = ''s1''"
    "''s1'' \<noteq> []"
    "i_userId (exButton ''s2'' ''ch7'' ''ticket_claim'' True []) \<noteq> ''s1''"
    by (simp_all add: ex_defs)
  have ev: "map claimedById (tickets (store (handleClaimButton (exEnv [])
       (exWorld [exTicket ''t7'' 7 ''ch7'' ''u1'' OPEN None] [''ch7''])
       (exButton ''s1'' ''ch7'' ''ticket_claim'' False [''r1''])))) = [Some ''s1'']
   \<and> map claimedById (tickets (store (handleClaimButton (exEnv [])
       (handleClaimButton (exEnv []) (exWorld [exTicket ''t7'' 7 ''ch7'' ''u1'' OPEN None] [''ch7''])
          (exButton ''s1'' ''ch7'' ''ticket_claim'' False [''r1'']))
       (exButton ''s1'' ''ch7'' ''ticket_claim'' False [''r1''])))) = [None]
   \<and> map claimedById (tickets (store (handleClaimButton (exEnv [])
       (handleClaimButton (exEnv []) (exWorld [exTicket ''t7'' 7 ''ch7'' ''u1'' OPEN None] [''ch7''])
          (exButton ''s1'' ''ch7'' ''ticket_claim'' False [''r1'']))
       (exButton ''s2'' ''ch7'' ''ticket_claim'' True [])))) = [Some ''s1'']"
    by (simp add: handler_defs ex_defs)
  from handleClaimButton_toggle [OF nf(1) nf(2) nf(3) nf(4) tk free perm ids(1) ids(2) ids(3)
      ids(4) ids(5)] nf(5) ev
  show ?thesis by simp
qed

text \<open>
  C10. For the ticket of the channel, in a run whose read succeeds: when the ticket's
  claimant is the interacting user, the handler's whole outcome is the same whatever the
  member's Manage Channels permission and roles are, and when the deferral and the write
  succeed the claim is dropped (the claimant is null afterwards), also for a member who
  holds neither capability. The guard is on the other path only: on an unclaimed ticket a
  member without either capability gets the permission-denied reply and nothing is written.
\<close>

theorem handleClaimButton_unclaim_unguarded:
  assumes rd: "\<not> throws e GetTicketByChannelId"
    and tk: "getTicketByChannelId (store w) (i_channelId interaction) = Some t"
  shows "(claimedById t = Some (i_userId interaction) \<and> i_userId interaction \<noteq> [] \<longrightarrow>
            handleClaimButton e w (interaction\<lparr>manageChannels := m, memberRoles := roles\<rparr>)
              = handleClaimButton e w interaction
            \<and> (\<not> throws e DeferReply \<and> \<not> throws e UnclaimTicket \<longrightarrow>
                 map_option claimedById
                   (getTicketByChannelId (store (handleClaimButton e w interaction))
                      (i_channelId interaction)) = Some None
                 \<and> Done (UnclaimWritten (ticket_id t))
                     \<in> set (trace (handleClaimButton e w interaction))))
       \<and> (\<not> truthy (claimedById t) \<and> \<not> hasPermission interaction t \<longrightarrow>
            handleClaimButton e w interaction = emit (Done (Reply PermissionDeniedEmbed)) w)"
proof -
  have same: "handleClaimButton e w (interaction\<lparr>manageChannels := m, memberRoles := roles\<rparr>)
              = handleClaimButton e w interaction"
    if "claimedById t = Some (i_userId interaction)" and "i_userId interaction \<noteq> []"
    using that rd tk
    by (simp add: handleClaimButton_def unclaimBranch_def claimControls_def truthy_def Let_def)
  have cleared: "map_option claimedById
                   (getTicketByChannelId (store (handleClaimButton e w interaction))
                      (i_channelId interaction)) = Some None
                 \<and> Done (UnclaimWritten (ticket_id t))
                     \<in> set (trace (handleClaimButton e w interaction))"
    if "claimedById t = Some (i_userId interaction)" and "i_userId interaction \<noteq> []"
      and "\<not> throws e DeferReply" and "\<not> throws e UnclaimTicket"
    using that rd tk unclaimBranch_store [OF that(3) that(4), of w interaction t]
      getTicketByChannelId_setClaimant [OF tk, of None]
    by (simp add: handleClaimButton_def truthy_def unclaimTicket_def)
  have denied: "handleClaimButton e w interaction = emit (Done (Reply PermissionDeniedEmbed)) w"
    if "\<not> truthy (claimedById t)" and "\<not> hasPermission interaction t"
    using that rd tk by (simp add: handleClaimButton_def claimBranch_def)
  show ?thesis using same cleared denied by blast
qed

theorem handleClaimButton_unclaim_unguarded_witness:
  "hasPermission (exButton ''s1'' ''ch7'' ''ticket_claim'' False [])
      (exTicket ''t7'' 7 ''ch7'' ''u1'' OPEN (Some ''s1'')) = False
   \<and> map claimedById (tickets (store (handleClaimButton (exEnv [])
       (exWorld [exTicket ''t7'' 7 ''ch7'' ''u1'' OPEN (Some ''s1'')] [''ch7''])
       (exButton ''s1'' ''ch7'' ''ticket_claim'' False [])))) = [None]
   \<and> handleClaimButton (exEnv [])
       (exWorld [exTicket ''t7'' 7 ''ch7'' ''u1'' OPEN (Some ''s1'')] [''ch7''])
       (exButton ''s1'' ''ch7'' ''ticket_claim'' False []\<lparr>manageChannels := True,
          memberRoles := [''r1'']\<rparr>)
     = handleClaimButton (exEnv [])
         (exWorld [exTicket ''t7'' 7 ''ch7'' ''u1'' OPEN (Some ''s1'')] [''ch7''])
         (exButton ''s1'' ''ch7'' ''ticket_claim'' False [])
   \<and> handleClaimButton (exEnv []) (exWorld [exTicket ''t7'' 7 ''ch7'' ''u1'' OPEN None] [''ch7''])
       (exButton ''s1'' ''ch7'' ''ticket_claim'' False [])
     = emit (Done (Reply PermissionDeniedEmbed))
         (exWorld [exTicket ''t7'' 7 ''ch7'' ''u1'' OPEN None] [''ch7''])"
proof -
  have nf: "\<not> throws (exEnv []) GetTicketByChannelId" "\<not> throws (exEnv []) DeferReply"
    "\<not> throws (exEnv []) UnclaimTicket"
    by (simp_all add: ex_defs)
  have t1: "getTicketByChannelId
      (store (exWorld [exTicket ''t7'' 7 ''ch7'' ''u1'' OPEN (Some ''s1'')] [''ch7'']))
      (i_channelId (exButton ''s1'' ''ch7'' ''ticket_claim'' False []))
        = Some (exTicket ''t7'' 7 ''ch7'' ''u1'' OPEN (Some ''s1''))"
    by (simp add: getTicketByChannelId_def ex_defs)
  have t2: "getTicketByChannelId
      (store (exWorld [exTicket ''t7'' 7 ''ch7'' ''u1'' OPEN None] [''ch7'']))
      (i_channelId (exButton ''s1'' ''ch7'' ''ticket_claim'' False []))
        = Some (exTicket ''t7'' 7 ''ch7'' ''u1'' OPEN None)"
    by (simp add: getTicketByChannelId_def ex_defs)
  have own: "claimedById (exTicket ''t7'' 7 ''ch7'' ''u1'' OPEN (Some ''s1''))
      = Some (i_userId (exButton ''s1'' ''ch7'' ''ticket_claim'' False []))"
    "i_userId (exButton ''s1'' ''ch7'' ''ticket_claim'' False []) \<noteq> []"
    by (simp_all add: ex_defs)
  have np: "\<not> hasPermission (exButton ''s1'' ''ch7'' ''ticket_claim'' False [])
      (exTicket ''t7'' 7 ''ch7'' ''u1'' OPEN (Some ''s1''))"
    "\<not> hasPermission (exButton ''s1'' ''ch7'' ''ticket_claim'' False [])
      (exTicket ''t7'' 7 ''ch7'' ''u1'' OPEN None)"
    "\<not> truthy (claimedById (exTicket ''t7'' 7 ''ch7'' ''u1'' OPEN None))"
    by (simp_all add: hasPermission_def truthy_def ex_defs)
  have ev: "map claimedById (tickets (store (handleClaimButton (exEnv [])
       (exWorld [exTicket ''t7'' 7 ''ch7'' ''u1'' OPEN (Some ''s1'')] [''ch7''])
       (exButton ''s1'' ''ch7'' ''ticket_claim'' False [])))) = [None]"
    by (simp add: handler_defs ex_defs)
  from handleClaimButton_unclaim_unguarded [where m = True and roles = "[''r1'']", OF nf(1) t1]
    handleClaimButton_unclaim_unguarded [where m = True and roles = "[''r1'']", OF nf(1) t2]
    own np nf ev
  show ?thesis by simp
qed

section \<open>The confirmation gate of a deletion\<close>

text \<open>
  C5. Take a collected press of \<^verbatim>\<open>confirm_delete\<close>. The channel deletion is scheduled only
  when the status write did not throw, and then the store holds the write of CLOSED with the
  acting user and the reason "Ticket deleted by staff", and in the trace of the listener
  followed by the timer callback that write stands before the first attempt to delete the
  channel. When the deferral and the write succeed, the deletion is scheduled and the
  collector stopped. The write takes no account of the ticket's status before: every row
  with the ticket's id is CLOSED afterwards. The timer callback never touches the store, so
  a failed channel deletion rolls nothing back; on such a failure it sends the acting user
  a direct message about it.
\<close>

theorem confirmed_deletion_closes_first:
  assumes cf: "customId i = ''confirm_delete''"
  shows "(snd (snd (onCollect e col w i)) \<longrightarrow>
            \<not> throws e UpdateTicketStatus
            \<and> store (fst (onCollect e col w i))
                = updateTicketStatus (now e) (store w) (ticket_id (heldTicket col)) CLOSED
                    (Some (i_userId (opener col))) (Some ''Ticket deleted by staff'')
            \<and> (\<exists>between attempt after.
                  trace (onTimer e col (fst (onCollect e col w i)))
                    = trace w
                      @ Done (StatusWritten (ticket_id (heldTicket col)) CLOSED
                                (Some (i_userId (opener col))) (Some ''Ticket deleted by staff''))
                      # between @ attempt # after
                  \<and> filter isChannelDelete between = [] \<and> isChannelDelete attempt))
       \<and> (\<not> throws e DeferUpdate \<and> \<not> throws e UpdateTicketStatus \<longrightarrow>
            snd (snd (onCollect e col w i)) \<and> fst (snd (onCollect e col w i)))
       \<and> (\<forall>x \<in> set (tickets (updateTicketStatus (now e) (store w) (ticket_id (heldTicket col))
                                CLOSED (Some (i_userId (opener col)))
                                (Some ''Ticket deleted by staff''))).
            ticket_id x = ticket_id (heldTicket col) \<longrightarrow>
              status x = CLOSED \<and> closedById x = Some (i_userId (opener col))
              \<and> closeReason x = Some ''Ticket deleted by staff'')
       \<and> store (onTimer e col v) = store v
       \<and> (throws e ChannelDelete \<or> channels v (i_channelId (opener col)) = None \<longrightarrow>
            trace (onTimer e col v)
              = trace v @ [Threw (ChannelDeleted (i_channelId (opener col))),
                           if throws e UserSend
                           then Threw (DirectMessage (i_userId (opener col)) DeleteFailedEmbed)
                           else Done (DirectMessage (i_userId (opener col)) DeleteFailedEmbed)])"
proof -
  let ?written = "StatusWritten (ticket_id (heldTicket col)) CLOSED
                    (Some (i_userId (opener col))) (Some ''Ticket deleted by staff'')"
  let ?w1 = "emit (Done ?written)
               (w\<lparr>store := updateTicketStatus (now e) (store w) (ticket_id (heldTicket col)) CLOSED
                              (Some (i_userId (opener col))) (Some ''Ticket deleted by staff'')\<rparr>)"
  have sched: "snd (snd (onCollect e col w i))
                 = (\<not> throws e DeferUpdate \<and> \<not> throws e UpdateTicketStatus)"
    using cf by (simp add: onCollect_def Let_def)
  have stop: "\<not> throws e DeferUpdate \<and> \<not> throws e UpdateTicketStatus
                \<longrightarrow> fst (snd (onCollect e col w i))"
    using cf by (simp add: onCollect_def Let_def)
  have run: "fst (onCollect e col w i)
               = emit (Done (EditReply (SuccessEmbed ''Deleting ticket...''))) (notifyCreator e ?w1 col)"
    if "snd (snd (onCollect e col w i))"
    using that cf by (simp add: onCollect_def Let_def split: if_splits)
  have st: "store (fst (onCollect e col w i))
                = updateTicketStatus (now e) (store w) (ticket_id (heldTicket col)) CLOSED
                    (Some (i_userId (opener col))) (Some ''Ticket deleted by staff'')"
    if "snd (snd (onCollect e col w i))"
    using run [OF that] by (simp add: emit_def notifyCreator_store)
  have order: "\<exists>between attempt after.
                  trace (onTimer e col (fst (onCollect e col w i)))
                    = trace w @ Done ?written # between @ attempt # after
                  \<and> filter isChannelDelete between = [] \<and> isChannelDelete attempt"
    if "snd (snd (onCollect e col w i))"
  proof -
    obtain dm where dm: "trace (notifyCreator e ?w1 col) = trace ?w1 @ dm"
      and nodel: "filter isChannelDelete dm = []"
      using notifyCreator_trace by blast
    obtain attempt after where
      tm: "trace (onTimer e col (fst (onCollect e col w i)))
             = trace (fst (onCollect e col w i)) @ attempt # after"
      and del: "isChannelDelete attempt"
      using onTimer_trace by blast
    have "trace (fst (onCollect e col w i))
            = trace w @ Done ?written # (dm @ [Done (EditReply (SuccessEmbed ''Deleting ticket...''))])"
      using run [OF that] dm by (simp add: emit_def)
    then have "trace (onTimer e col (fst (onCollect e col w i)))
            = trace w @ Done ?written
              # (dm @ [Done (EditReply (SuccessEmbed ''Deleting ticket...''))]) @ attempt # after"
      using tm by simp
    moreover have "filter isChannelDelete
        (dm @ [Done (EditReply (SuccessEmbed ''Deleting ticket...''))]) = []"
      using nodel by simp
    ultimately show ?thesis using del by blast
  qed
  have allc: "\<forall>x \<in> set (tickets (updateTicketStatus (now e) (store w) (ticket_id (heldTicket col))
                                CLOSED (Some (i_userId (opener col)))
                                (Some ''Ticket deleted by staff''))).
            ticket_id x = ticket_id (heldTicket col) \<longrightarrow>
              status x = CLOSED \<and> closedById x = Some (i_userId (opener col))
              \<and> closeReason x = Some ''Ticket deleted by staff''"
    by (auto simp: updateTicketStatus_def writeStatus_def)
  have fail: "throws e ChannelDelete \<or> channels v (i_channelId (opener col)) = None \<longrightarrow>
            trace (onTimer e col v)
              = trace v @ [Threw (ChannelDeleted (i_channelId (opener col))),
                           if throws e UserSend
                           then Threw (DirectMessage (i_userId (opener col)) DeleteFailedEmbed)
                           else Done (DirectMessage (i_userId (opener col)) DeleteFailedEmbed)]"
    by (auto simp: onTimer_def channelDelete_def emit_def Let_def)
  show ?thesis
    using sched stop st order allc fail onTimer_store [of e col v] by blast
qed

theorem confirmed_deletion_closes_first_witness:
  "snd (snd (onCollect (exEnv [ChannelDelete]) (exCollector\<lparr>heldTicket := exTicket ''t7'' 7 ''ch7'' ''u1'' ARCHIVED None\<rparr>)
       (exWorld [exTicket ''t7'' 7 ''ch7'' ''u1'' ARCHIVED None] [''ch7'']) exConfirm)) = True
   \<and> map status (tickets (store (onTimer (exEnv [ChannelDelete]) (exCollector\<lparr>heldTicket := exTicket ''t7'' 7 ''ch7'' ''u1'' ARCHIVED None\<rparr>)
        (fst (onCollect (exEnv [ChannelDelete]) (exCollector\<lparr>heldTicket := exTicket ''t7'' 7 ''ch7'' ''u1'' ARCHIVED None\<rparr>)
           (exWorld [exTicket ''t7'' 7 ''ch7'' ''u1'' ARCHIVED None] [''ch7'']) exConfirm)))))
       = [CLOSED]
   \<and> trace (onTimer (exEnv [ChannelDelete]) (exCollector\<lparr>heldTicket := exTicket ''t7'' 7 ''ch7'' ''u1'' ARCHIVED None\<rparr>)
        (fst (onCollect (exEnv [ChannelDelete]) (exCollector\<lparr>heldTicket := exTicket ''t7'' 7 ''ch7'' ''u1'' ARCHIVED None\<rparr>)
           (exWorld [exTicket ''t7'' 7 ''ch7'' ''u1'' ARCHIVED None] [''ch7'']) exConfirm)))
       = [Done (StatusWritten ''t7'' CLOSED (Some ''s1'') (Some ''Ticket deleted by staff'')),
          Done (DirectMessage ''u1'' (DeletedEmbed 7 ''s1'')),
          Done (EditReply (SuccessEmbed ''Deleting ticket...'')),
          Threw (ChannelDeleted ''ch7''),
          Done (DirectMessage ''s1'' DeleteFailedEmbed)]"
proof -
  have cf: "customId exConfirm = ''confirm_delete''"
    by (simp add: exConfirm_def ex_defs)
  have ev: "snd (snd (onCollect (exEnv [ChannelDelete]) (exCollector\<lparr>heldTicket := exTicket ''t7'' 7 ''ch7'' ''u1'' ARCHIVED None\<rparr>)
       (exWorld [exTicket ''t7'' 7 ''ch7'' ''u1'' ARCHIVED None] [''ch7'']) exConfirm)) = True
   \<and> map status (tickets (store (onTimer (exEnv [ChannelDelete]) (exCollector\<lparr>heldTicket := exTicket ''t7'' 7 ''ch7'' ''u1'' ARCHIVED None\<rparr>)
        (fst (onCollect (exEnv [ChannelDelete]) (exCollector\<lparr>heldTicket := exTicket ''t7'' 7 ''ch7'' ''u1'' ARCHIVED None\<rparr>)
           (exWorld [exTicket ''t7'' 7 ''ch7'' ''u1'' ARCHIVED None] [''ch7'']) exConfirm)))))
       = [CLOSED]
   \<and> trace (onTimer (exEnv [ChannelDelete]) (exCollector\<lparr>heldTicket := exTicket ''t7'' 7 ''ch7'' ''u1'' ARCHIVED None\<rparr>)
        (fst (onCollect (exEnv [ChannelDelete]) (exCollector\<lparr>heldTicket := exTicket ''t7'' 7 ''ch7'' ''u1'' ARCHIVED None\<rparr>)
           (exWorld [exTicket ''t7'' 7 ''ch7'' ''u1'' ARCHIVED None] [''ch7'']) exConfirm)))
       = [Done (StatusWritten ''t7'' CLOSED (Some ''s1'') (Some ''Ticket deleted by staff'')),
          Done (DirectMessage ''u1'' (DeletedEmbed 7 ''s1'')),
          Done (EditReply (SuccessEmbed ''Deleting ticket...'')),
          Threw (ChannelDeleted ''ch7''),
          Done (DirectMessage ''s1'' DeleteFailedEmbed)]"
    by (simp add: collector_defs ex_defs)
  from confirmed_deletion_closes_first [where e = "exEnv [ChannelDelete]" and col = "exCollector\<lparr>heldTicket := exTicket ''t7'' 7 ''ch7'' ''u1'' ARCHIVED None\<rparr>"
      and w = "exWorld [exTicket ''t7'' 7 ''ch7'' ''u1'' ARCHIVED None] [''ch7'']"
      and v = "fst (onCollect (exEnv [ChannelDelete]) (exCollector\<lparr>heldTicket := exTicket ''t7'' 7 ''ch7'' ''u1'' ARCHIVED None\<rparr>)
           (exWorld [exTicket ''t7'' 7 ''ch7'' ''u1'' ARCHIVED None] [''ch7'']) exConfirm)",
      OF cf] ev
  show ?thesis by simp
qed

text \<open>
  What the collector does hold to: it is opened for 30000 milliseconds on the prompt; it
  takes a press only from a button with one of the two custom ids and from the user who
  opened it, and nothing once it has ended; when its time runs out with nothing collected
  the reply is edited to "timed out" once, and a second expiry does nothing; and two presses
  of confirm of which the second arrives after the first listener has finished run the
  deletion once.
\<close>

lemma collector_opened:
  assumes "handleDeleteButton e w interaction = (w', Some col)"
  shows "opener col = interaction \<and> timeLimit col = 30000 \<and> \<not> ended col \<and> collected col = []"
  using assms
  by (auto simp: handleDeleteButton_def Let_def split: if_splits option.splits)

lemma collectorFilter_accepts:
  "collectorFilter interaction i
     = (isButton i \<and> (customId i = ''confirm_delete'' \<or> customId i = ''cancel_delete'')
        \<and> i_userId i = i_userId interaction)"
  by (auto simp: collectorFilter_def)

lemma collector_ignores:
  assumes "ended col \<or> \<not> collectorFilter (opener col) i"
  shows "collectorStep e (w, col) (Press i) = (w, col)"
  using assms by auto

lemma collector_timeout_once:
  assumes "\<not> ended col" and "collected col = []"
  shows "collectorRun e (w, col) [Elapsed]
           = (emit (Done (EditReply (InfoEmbed ''Ticket deletion timed out.''))) w,
              col\<lparr>ended := True\<rparr>)
       \<and> collectorRun e (w, col) [Elapsed, Elapsed] = collectorRun e (w, col) [Elapsed]"
  using assms by (simp add: collectorRun_def stopCollector_def onEnd_def)

lemma sequential_confirm_deletes_once:
  "trace (fst (collectorRun (exEnv [])
        (emit (Done (EditReply DeletePrompt))
           (emit (Done Deferred) (exWorld [exTicket ''t7'' 7 ''ch7'' ''u1'' OPEN None] [''ch7''])),
         exCollector)
        [Press exConfirm, Resume, Press exConfirm, Resume, Timer, Timer]))
     = [Done Deferred, Done (EditReply DeletePrompt),
        Done (StatusWritten ''t7'' CLOSED (Some ''s1'') (Some ''Ticket deleted by staff'')),
        Done (DirectMessage ''u1'' (DeletedEmbed 7 ''s1'')),
        Done (EditReply (SuccessEmbed ''Deleting ticket...'')),
        Done (ChannelDeleted ''ch7'')]"
  by (simp add: collector_defs ex_defs)

text \<open>
  C6: the collector takes only the two custom ids from the requesting user for its 30-second
  window, reports a timeout once, and is meant to run the deletion once however often confirm
  is pressed. The listener calls \<^verbatim>\<open>collector.stop()\<close> only at its end, after its awaited calls,
  and the collector has no limit on what it collects: a second press of confirm that
  arrives while the first listener is still suspended is collected as well, and both
  listeners run on. In the run below the staff member \<^verbatim>\<open>s1\<close> opens the prompt on ticket 7 and
  presses confirm twice before either listener resumes: the status is written twice, the
  creator is told twice, and the channel deletion is attempted twice (the second attempt
  fails on the channel that is already gone, and \<^verbatim>\<open>s1\<close> is told that the deletion failed).
\<close>

theorem double_confirm_deletes_twice:
  "handleDeleteButton (exEnv []) (exWorld [exTicket ''t7'' 7 ''ch7'' ''u1'' OPEN None] [''ch7''])
       exOpener
     = (emit (Done (EditReply DeletePrompt))
          (emit (Done Deferred) (exWorld [exTicket ''t7'' 7 ''ch7'' ''u1'' OPEN None] [''ch7''])),
        Some exCollector)
   \<and> trace (fst (collectorRun (exEnv [])
        (emit (Done (EditReply DeletePrompt))
           (emit (Done Deferred) (exWorld [exTicket ''t7'' 7 ''ch7'' ''u1'' OPEN None] [''ch7''])),
         exCollector)
        [Press exConfirm, Press exConfirm, Resume, Resume, Timer, Timer]))
     = [Done Deferred, Done (EditReply DeletePrompt),
        Done (StatusWritten ''t7'' CLOSED (Some ''s1'') (Some ''Ticket deleted by staff'')),
        Done (DirectMessage ''u1'' (DeletedEmbed 7 ''s1'')),
        Done (EditReply (SuccessEmbed ''Deleting ticket...'')),
        Done (StatusWritten ''t7'' CLOSED (Some ''s1'') (Some ''Ticket deleted by staff'')),
        Done (DirectMessage ''u1'' (DeletedEmbed 7 ''s1'')),
        Done (EditReply (SuccessEmbed ''Deleting ticket...'')),
        Done (ChannelDeleted ''ch7''),
        Threw (ChannelDeleted ''ch7''),
        Done (DirectMessage ''s1'' DeleteFailedEmbed)]
   \<and> length (filter isStatusWrite (trace (fst (collectorRun (exEnv [])
        (emit (Done (EditReply DeletePrompt))
           (emit (Done Deferred) (exWorld [exTicket ''t7'' 7 ''ch7'' ''u1'' OPEN None] [''ch7''])),
         exCollector)
        [Press exConfirm, Press exConfirm, Resume, Resume, Timer, Timer])))) = 2
   \<and> length (filter isChannelDelete (trace (fst (collectorRun (exEnv [])
        (emit (Done (EditReply DeletePrompt))
           (emit (Done Deferred) (exWorld [exTicket ''t7'' 7 ''ch7'' ''u1'' OPEN None] [''ch7''])),
         exCollector)
        [Press exConfirm, Press exConfirm, Resume, Resume, Timer, Timer])))) = 2"
  by (simp add: collector_defs ex_defs)

end
